theory Spec2Isabelle
  imports Main
begin

section \<open>The prediction bot (prediction.py)\<close>

text \<open>
  The bot is a set of handlers over three document collections (users, predictions,
  leaderboard) and a messaging provider. Every handler is embedded as a function from
  the world to a result and a new world. An exception of the source is the result
  \<open>Inl e\<close>. Every call that leaves the process (a provider call or a store call) is
  appended to the trace of the world together with its outcome, and whether it fails is
  read from an oracle at the position the call takes in the trace.

  String literals keep the ASCII text of the source; the pictographs and the decorated
  letters of the source's messages are left out, and \<open>parse_mode\<close> is not recorded.
\<close>

subsection \<open>Data\<close>

datatype error =
    TransportError
  | PersistenceError
  | AttributeError
  | IndexError
  | MalformedBody

text \<open>A user as the provider describes it (\<open>update.effective_user\<close>, \<open>query.from_user\<close>).\<close>

record tg_user =
  tg_id :: int
  tg_username :: "string option"
  tg_first_name :: string
  tg_last_name :: "string option"

text \<open>The documents of the three collections, with the keys the source writes.\<close>

record user_doc =
  u_user_id :: int
  u_username :: "string option"
  u_first_name :: string
  u_last_name :: "string option"
  u_balance :: int
  u_predictions :: int
  u_join_date :: string

record prediction_doc =
  p_user_id :: int
  p_type :: string
  p_result :: string
  p_timestamp :: string

record leaderboard_doc =
  l_user_id :: int
  l_username :: "string option"
  l_score :: int

datatype button =
    UrlButton string string
  | CallbackButton string string

type_synonym keyboard = "button list list"

datatype msg_ref = UpdateMessage | QueryMessage | SyncMessage

datatype store_op =
    UsersUpdateOne int
  | UsersFind
  | UsersFindOne int
  | UsersCount
  | PredictionsInsertOne int
  | PredictionsCount "int option"
  | LeaderboardUpdateOne int "string option" int
  | LeaderboardFind

text \<open>
  The store calls carry what the claims read from them: \<open>LeaderboardUpdateOne u n p\<close> is
  \<open>update_one({'user_id': u}, {'$set': {'username': n}, '$inc': {'score': p}}, upsert=True)\<close>,
  the increment being done by the store; \<open>LeaderboardFind\<close> is the read of the leaderboard.
\<close>

text \<open>The calls that leave the process.\<close>

datatype event =
    GetChatMember string int
  | AnswerCallback "string option" bool
  | ReplyText msg_ref string keyboard
  | EditText msg_ref string
  | Delete msg_ref
  | ReplyPhoto msg_ref string string keyboard
  | SendMessage int string
  | StoreOp store_op

record world =
  users_collection :: "user_doc list"
  predictions_collection :: "prediction_doc list"
  leaderboard_collection :: "leaderboard_doc list"
  trace :: "(event \<times> bool) list"
  logged :: "string list"

text \<open>\<open>CONFIG\<close>: fixed when the process starts.\<close>

record config =
  admin_id :: int
  required_channels :: "string list"
  channel_links :: "string list"

text \<open>
  What the surroundings answer during one handler run: the provider's membership
  answer per chat and user, which calls fail (by position in the trace), the clock
  reading of \<open>datetime.now()\<close> and the raw draw behind \<open>random\<close>.
\<close>

record env =
  get_chat_member :: "string \<Rightarrow> int \<Rightarrow> error + string"
  fails :: "nat \<Rightarrow> bool"
  now :: string
  rand :: nat

text \<open>
  An inbound update: a new message that is a command (the command word after the slash,
  without the suffix that names the bot), with its arguments; an edit of a message that
  makes it a command (\<open>CommandHandler\<close> listens to edited messages too,
  and then \<open>update.message\<close> is \<open>None\<close>); a button press with its callback data; or
  anything else the provider may deliver.
\<close>

datatype update =
    CommandUpdate string tg_user "string list"
  | EditedCommandUpdate string tg_user "string list"
  | CallbackUpdate string tg_user
  | OtherUpdate

subsection \<open>Actions: state passing with exceptions\<close>

type_synonym 'a action = "world \<Rightarrow> (error + 'a) \<times> world"

definition ret :: "'a \<Rightarrow> 'a action" where
  "ret x w = (Inr x, w)"

definition throw :: "error \<Rightarrow> 'a action" where
  "throw e w = (Inl e, w)"

definition seq :: "'a action \<Rightarrow> ('a \<Rightarrow> 'b action) \<Rightarrow> 'b action" where
  "seq m f w = (case m w of (Inl e, w') \<Rightarrow> (Inl e, w') | (Inr x, w') \<Rightarrow> f x w')"

text \<open>\<open>try: m  except Exception as e: h e\<close>\<close>

definition try_except :: "'a action \<Rightarrow> (error \<Rightarrow> 'a action) \<Rightarrow> 'a action" where
  "try_except m h w = (case m w of (Inl e, w') \<Rightarrow> h e w' | (Inr x, w') \<Rightarrow> (Inr x, w'))"

definition modify :: "(world \<Rightarrow> world) \<Rightarrow> unit action" where
  "modify f w = (Inr (), f w)"

definition gets :: "(world \<Rightarrow> 'a) \<Rightarrow> 'a action" where
  "gets f w = (Inr (f w), w)"

text \<open>A call that leaves the process: recorded with its outcome; it raises \<open>err\<close> when
  the oracle says that the call at this position fails.\<close>

definition call :: "env \<Rightarrow> error \<Rightarrow> event \<Rightarrow> unit action" where
  "call orc err ev w =
     (let ok = \<not> fails orc (length (trace w));
          w' = w\<lparr>trace := trace w @ [(ev, ok)]\<rparr>
      in (if ok then Inr () else Inl err, w'))"

definition logger_error :: "string \<Rightarrow> unit action" where
  "logger_error line = modify (\<lambda>w. w\<lparr>logged := logged w @ [line]\<rparr>)"

text \<open>\<open>asyncio.sleep\<close>: time is not part of the world.\<close>

definition asyncio_sleep :: "nat \<Rightarrow> unit action" where
  "asyncio_sleep n = ret ()"

subsection \<open>Python's \<open>str\<close> of an integer and of an optional string\<close>

function str_nat :: "nat \<Rightarrow> string" where
  "str_nat n =
     (if n < 10 then [''0123456789'' ! n]
      else str_nat (n div 10) @ [''0123456789'' ! (n mod 10)])"
  by pat_completeness auto
termination
  by (relation "measure (\<lambda>n. n)") auto

definition str_int :: "int \<Rightarrow> string" where
  "str_int i = (if i < 0 then ''-'' @ str_nat (nat (- i)) else str_nat (nat i))"

definition str_opt :: "string option \<Rightarrow> string" where
  "str_opt s = (case s of None \<Rightarrow> ''None'' | Some t \<Rightarrow> t)"

text \<open>\<open>sep.join(parts)\<close>\<close>

fun join :: "string \<Rightarrow> string list \<Rightarrow> string" where
  "join sep [] = []"
| "join sep [x] = x"
| "join sep (x # y # ys) = x @ sep @ join sep (y # ys)"

subsection \<open>Database functions\<close>

text \<open>
  \<open>update_one(filter, update, upsert=True)\<close> on a collection held in insertion order:
  the first document that matches the filter is updated in place, and when none matches
  a new document is inserted. A store call that fails leaves the collection as it was.
\<close>

definition user_fields :: "env \<Rightarrow> tg_user \<Rightarrow> user_doc \<Rightarrow> user_doc" where
  "user_fields orc user d =
     d\<lparr>u_username := tg_username user,
       u_first_name := tg_first_name user,
       u_last_name := tg_last_name user,
       u_balance := 0,
       u_predictions := 0,
       u_join_date := now orc\<rparr>"

fun upsert_user :: "env \<Rightarrow> tg_user \<Rightarrow> user_doc list \<Rightarrow> user_doc list" where
  "upsert_user orc user [] =
     [\<lparr>u_user_id = tg_id user,
       u_username = tg_username user,
       u_first_name = tg_first_name user,
       u_last_name = tg_last_name user,
       u_balance = 0,
       u_predictions = 0,
       u_join_date = now orc\<rparr>]"
| "upsert_user orc user (x # xs) =
     (if u_user_id x = tg_id user then user_fields orc user x # xs
      else x # upsert_user orc user xs)"

definition add_user :: "env \<Rightarrow> tg_user \<Rightarrow> unit action" where
  "add_user orc user =
     seq (call orc PersistenceError (StoreOp (UsersUpdateOne (tg_id user))))
       (\<lambda>_. modify (\<lambda>w. w\<lparr>users_collection :=
          upsert_user orc user (users_collection w)\<rparr>))"

definition add_prediction :: "env \<Rightarrow> int \<Rightarrow> string \<Rightarrow> string \<Rightarrow> unit action" where
  "add_prediction orc user_id prediction_type result =
     seq (call orc PersistenceError (StoreOp (PredictionsInsertOne user_id)))
       (\<lambda>_. modify (\<lambda>w. w\<lparr>predictions_collection :=
          predictions_collection w @
            [\<lparr>p_user_id = user_id,
              p_type = prediction_type,
              p_result = result,
              p_timestamp = now orc\<rparr>]\<rparr>))"

text \<open>\<open>{'$set': {'username': username}, '$inc': {'score': points}}\<close> with upsert.\<close>

fun inc_score :: "int \<Rightarrow> string option \<Rightarrow> int \<Rightarrow> leaderboard_doc list \<Rightarrow> leaderboard_doc list" where
  "inc_score user_id uname points [] =
     [\<lparr>l_user_id = user_id, l_username = uname, l_score = points\<rparr>]"
| "inc_score user_id uname points (x # xs) =
     (if l_user_id x = user_id
      then x\<lparr>l_username := uname, l_score := l_score x + points\<rparr> # xs
      else x # inc_score user_id uname points xs)"

definition update_leaderboard :: "env \<Rightarrow> int \<Rightarrow> string option \<Rightarrow> int \<Rightarrow> unit action" where
  "update_leaderboard orc user_id uname points =
     seq (call orc PersistenceError (StoreOp (LeaderboardUpdateOne user_id uname points)))
       (\<lambda>_. modify (\<lambda>w. w\<lparr>leaderboard_collection :=
          inc_score user_id uname points (leaderboard_collection w)\<rparr>))"

text \<open>\<open>find().sort('score', -1).limit(10)\<close>: descending by score, ties in insertion order.\<close>

definition get_leaderboard :: "env \<Rightarrow> leaderboard_doc list action" where
  "get_leaderboard orc =
     seq (call orc PersistenceError (StoreOp LeaderboardFind))
       (\<lambda>_. gets (\<lambda>w. take 10 (sort_key (\<lambda>d. - l_score d) (leaderboard_collection w))))"

definition find_one :: "int \<Rightarrow> user_doc list \<Rightarrow> user_doc option" where
  "find_one user_id docs = find (\<lambda>d. u_user_id d = user_id) docs"

definition get_user_stats :: "env \<Rightarrow> int \<Rightarrow> (user_doc option \<times> nat) action" where
  "get_user_stats orc user_id =
     seq (call orc PersistenceError (StoreOp (UsersFindOne user_id)))
       (\<lambda>_. seq (gets (\<lambda>w. find_one user_id (users_collection w)))
          (\<lambda>user.
             seq (call orc PersistenceError (StoreOp (PredictionsCount (Some user_id))))
               (\<lambda>_. seq (gets (\<lambda>w. length (filter (\<lambda>p. p_user_id p = user_id)
                                            (predictions_collection w))))
                  (\<lambda>prediction_count. ret (user, prediction_count)))))"

subsection \<open>Force join\<close>

definition bot_get_chat_member :: "env \<Rightarrow> string \<Rightarrow> int \<Rightarrow> string action" where
  "bot_get_chat_member orc chat_id user_id w =
     (let r = get_chat_member orc chat_id user_id
      in (r, w\<lparr>trace := trace w @ [(GetChatMember chat_id user_id, \<not> isl r)]\<rparr>))"

primrec is_user_member_loop :: "env \<Rightarrow> int \<Rightarrow> string list \<Rightarrow> bool action" where
  "is_user_member_loop orc user_id [] = ret True"
| "is_user_member_loop orc user_id (channel # rest) =
     seq
       (try_except
          (seq (bot_get_chat_member orc (''@'' @ channel) user_id)
             (\<lambda>status. ret (status \<in> set [''member'', ''administrator'', ''creator''])))
          (\<lambda>e. seq (logger_error (''Error checking membership for '' @ str_int user_id
                       @ '' in '' @ channel))
                  (\<lambda>_. ret False)))
       (\<lambda>passed. if passed then is_user_member_loop orc user_id rest else ret False)"

definition is_user_member :: "config \<Rightarrow> env \<Rightarrow> int \<Rightarrow> bool action" where
  "is_user_member cfg orc user_id = is_user_member_loop orc user_id (required_channels cfg)"

definition lift :: "error + 'a \<Rightarrow> 'a action" where
  "lift r w = (r, w)"

text \<open>\<open>update.effective_user\<close>, \<open>update.callback_query\<close> (its \<open>from_user\<close>) and
  \<open>context.args\<close>; \<open>update.message\<close> is present on a new command message only.\<close>

definition effective_user :: "update \<Rightarrow> tg_user option" where
  "effective_user upd =
     (case upd of CommandUpdate _ user _ \<Rightarrow> Some user
                | EditedCommandUpdate _ user _ \<Rightarrow> Some user
                | CallbackUpdate _ user \<Rightarrow> Some user
                | OtherUpdate \<Rightarrow> None)"

definition callback_query :: "update \<Rightarrow> tg_user option" where
  "callback_query upd =
     (case upd of CallbackUpdate _ user \<Rightarrow> Some user | _ \<Rightarrow> None)"

definition context_args :: "update \<Rightarrow> string list" where
  "context_args upd =
     (case upd of CommandUpdate _ _ args \<Rightarrow> args
                | EditedCommandUpdate _ _ args \<Rightarrow> args
                | _ \<Rightarrow> [])"

definition has_message :: "update \<Rightarrow> bool" where
  "has_message upd = (case upd of CommandUpdate _ _ _ \<Rightarrow> True | _ \<Rightarrow> False)"

text \<open>\<open>await update.message.reply_text(text, reply_markup=kb)\<close>: on an update without
  a message the attribute access on \<open>None\<close> raises.\<close>

definition update_message_reply_text :: "env \<Rightarrow> update \<Rightarrow> string \<Rightarrow> keyboard \<Rightarrow> unit action" where
  "update_message_reply_text orc upd text kb =
     (case upd of
        CommandUpdate _ _ _ \<Rightarrow> call orc TransportError (ReplyText UpdateMessage text kb)
      | _ \<Rightarrow> throw AttributeError)"

definition join_buttons :: "config \<Rightarrow> error + keyboard" where
  "join_buttons cfg =
     (if length (channel_links cfg) < length (required_channels cfg) then Inl IndexError
      else Inr (map (\<lambda>i. [UrlButton (''Join '' @ required_channels cfg ! i) (channel_links cfg ! i)])
                  [0..<length (required_channels cfg)]))"

definition join_prompt :: string where
  "join_prompt =
     ''Verification Status: You must join the following channels to use this bot and verify you're not a robot\<newline>\<newline>Click the buttons below to join, then press *'Verify'*.''"

definition ask_user_to_join :: "config \<Rightarrow> env \<Rightarrow> update \<Rightarrow> unit action" where
  "ask_user_to_join cfg orc upd =
     seq (lift (join_buttons cfg))
       (\<lambda>buttons. update_message_reply_text orc upd join_prompt
          (buttons @ [[CallbackButton ''Verify'' ''verify_membership'']]))"

subsection \<open>Command handlers\<close>

definition welcome_text :: string where
  "welcome_text =
     ''Welcome to the Color and Number Prediction Bot!\<newline>\<newline>Disclaimer: This bot provides randomized predictions for entertainment only.\<newline>\<newline>Use the buttons below to get started:''"

definition start :: "config \<Rightarrow> env \<Rightarrow> update \<Rightarrow> unit action" where
  "start cfg orc upd =
     (case effective_user upd of
        None \<Rightarrow> throw AttributeError
      | Some user \<Rightarrow>
          seq (add_user orc user)
            (\<lambda>_. seq (is_user_member cfg orc (tg_id user))
               (\<lambda>member.
                  if \<not> member then ask_user_to_join cfg orc upd
                  else update_message_reply_text orc upd welcome_text
                         [[CallbackButton ''Color Prediction'' ''color_prediction''],
                          [CallbackButton ''Number Prediction'' ''number_prediction'']])))"

definition verify_membership :: "config \<Rightarrow> env \<Rightarrow> update \<Rightarrow> unit action" where
  "verify_membership cfg orc upd =
     (case callback_query upd of
        None \<Rightarrow> throw AttributeError
      | Some from_user \<Rightarrow>
          seq (is_user_member cfg orc (tg_id from_user))
            (\<lambda>member.
               if member then
                 seq (call orc TransportError
                        (EditText QueryMessage ''You are verified! You can now use the bot.''))
                   (\<lambda>_. start cfg orc upd)
               else call orc TransportError
                      (AnswerCallback (Some ''You haven't joined all the required channels yet!'') True)))"

definition how_to_bet_text :: string where
  "how_to_bet_text =
     ''*How to Bet on Color & Number Prediction Games*\<newline>\<newline>1 Choose a trusted betting platform\<newline>2 Deposit funds into your account\<newline>3 Select the game type\<newline>4 Place your bet\<newline>5 Wait for results\<newline>\<newline>*Bet Responsibly!*''"

definition how_to_bet :: "config \<Rightarrow> env \<Rightarrow> update \<Rightarrow> unit action" where
  "how_to_bet cfg orc upd =
     (case effective_user upd of
        None \<Rightarrow> throw AttributeError
      | Some user \<Rightarrow>
          seq (is_user_member cfg orc (tg_id user))
            (\<lambda>member.
               if \<not> member then ask_user_to_join cfg orc upd
               else update_message_reply_text orc upd how_to_bet_text []))"

definition profile_text :: "tg_user \<Rightarrow> nat \<Rightarrow> string \<Rightarrow> string" where
  "profile_text user prediction_count joined =
     ''User Info:\<newline>\<newline>''
     @ ''User ID: '' @ str_int (tg_id user) @ ''\<newline>''
     @ ''Name: '' @ tg_first_name user @ ''\<newline>''
     @ ''Username: ''
     @ (case tg_username user of None \<Rightarrow> ''N/A'' | Some n \<Rightarrow> if n = [] then ''N/A'' else n)
     @ ''\<newline>''
     @ ''Predictions: '' @ str_nat prediction_count @ ''\<newline>''
     @ ''Joined: '' @ joined @ ''\<newline>''"

definition profile :: "config \<Rightarrow> env \<Rightarrow> update \<Rightarrow> unit action" where
  "profile cfg orc upd =
     (case effective_user upd of
        None \<Rightarrow> throw AttributeError
      | Some user \<Rightarrow>
          seq (is_user_member cfg orc (tg_id user))
            (\<lambda>member.
               if \<not> member then ask_user_to_join cfg orc upd
               else
                 seq (get_user_stats orc (tg_id user))
                   (\<lambda>(user_data, prediction_count).
                      case user_data of
                        None \<Rightarrow> throw AttributeError
                      | Some d \<Rightarrow>
                          update_message_reply_text orc upd
                            (profile_text user prediction_count (u_join_date d)) [])))"

text \<open>The loop \<open>for i, user in enumerate(leaderboard_data, 1): leaderboard_text += ...\<close>\<close>

definition leaderboard_line :: "nat \<Rightarrow> leaderboard_doc \<Rightarrow> string" where
  "leaderboard_line i user =
     str_nat i @ ''. '' @ str_opt (l_username user) @ '': '' @ str_int (l_score user)
     @ '' points\<newline>''"

fun leaderboard_loop :: "nat \<Rightarrow> leaderboard_doc list \<Rightarrow> string \<Rightarrow> string" where
  "leaderboard_loop i [] leaderboard_text = leaderboard_text"
| "leaderboard_loop i (user # rest) leaderboard_text =
     leaderboard_loop (i + 1) rest (leaderboard_text @ leaderboard_line i user)"

definition leaderboard :: "env \<Rightarrow> update \<Rightarrow> unit action" where
  "leaderboard orc upd =
     seq (get_leaderboard orc)
       (\<lambda>leaderboard_data.
          if leaderboard_data = [] then
            update_message_reply_text orc upd ''No users on the leaderboard yet.'' []
          else
            update_message_reply_text orc upd
              (leaderboard_loop 1 leaderboard_data ''Top 10 Users:\<newline>\<newline>'') [])"

text \<open>The loop of \<open>broadcast\<close>: one send per user document; a failed send is logged and
  the loop goes on.\<close>

fun broadcast_loop :: "env \<Rightarrow> string \<Rightarrow> int list \<Rightarrow> nat \<Rightarrow> nat action" where
  "broadcast_loop orc message [] success = ret success"
| "broadcast_loop orc message (user_id # rest) success =
     seq
       (try_except
          (seq (call orc TransportError (SendMessage user_id message))
             (\<lambda>_. ret (success + 1)))
          (\<lambda>e. seq (logger_error (''Failed to send to '' @ str_int user_id))
                  (\<lambda>_. ret success)))
       (\<lambda>success'. broadcast_loop orc message rest success')"

definition broadcast :: "config \<Rightarrow> env \<Rightarrow> update \<Rightarrow> unit action" where
  "broadcast cfg orc upd =
     (case effective_user upd of
        None \<Rightarrow> throw AttributeError
      | Some user \<Rightarrow>
          if tg_id user \<noteq> admin_id cfg then
            update_message_reply_text orc upd
              ''You don't have permission to use this command.'' []
          else if context_args upd = [] then
            update_message_reply_text orc upd ''Please provide a message to broadcast.'' []
          else
            seq (call orc PersistenceError (StoreOp UsersFind))
              (\<lambda>_. seq (gets (\<lambda>w. map u_user_id (users_collection w)))
                 (\<lambda>users.
                    seq (broadcast_loop orc (join '' '' (context_args upd)) users 0)
                      (\<lambda>success.
                         update_message_reply_text orc upd
                           (''Broadcast sent to '' @ str_nat success @ '' users.'') []))))"

definition stats :: "config \<Rightarrow> env \<Rightarrow> update \<Rightarrow> unit action" where
  "stats cfg orc upd =
     (case effective_user upd of
        None \<Rightarrow> throw AttributeError
      | Some user \<Rightarrow>
          if tg_id user \<noteq> admin_id cfg then
            update_message_reply_text orc upd
              ''You are not authorized to use this command.'' []
          else
            seq (call orc PersistenceError (StoreOp UsersCount))
              (\<lambda>_. seq (gets (\<lambda>w. length (users_collection w)))
                 (\<lambda>user_count.
                    seq (call orc PersistenceError (StoreOp (PredictionsCount None)))
                      (\<lambda>_. seq (gets (\<lambda>w. length (predictions_collection w)))
                         (\<lambda>total_predictions.
                            update_message_reply_text orc upd
                              (''*Bot Statistics*\<newline>\<newline>''
                               @ ''Total Users: '' @ str_nat user_count @ ''\<newline>''
                               @ ''Total Predictions: '' @ str_nat total_predictions
                               @ ''\<newline>\<newline>'') [])))))"

definition contact_text :: string where
  "contact_text =
     ''( Contact Us )\<newline>\<newline>Email: `freenethubbusiness@gmail.com`\<newline>\<newline>For Any Issues, Business Deals Or Inquiries, Please Reach Out To Us \<newline>\<newline>*ONLY FOR BUSINESS AND HELP, DON'T SPAM!*''"

definition contact_us :: "env \<Rightarrow> update \<Rightarrow> unit action" where
  "contact_us orc upd =
     update_message_reply_text orc upd contact_text
       [[UrlButton ''Message Admin'' ''https://t.me/Silando'']]"

subsection \<open>Prediction functions\<close>

definition SYNC_FRAMES :: "string list" where
  "SYNC_FRAMES =
     [''Checking Predictions [] 15%'',
      ''Checking Predictions [] 30%'',
      ''Checking Predictions [] 45%'',
      ''Checking Predictions [] 60%'',
      ''Checking Predictions [] 80%'',
      ''Checking Predictions [] 100%'']"

primrec edit_frames :: "env \<Rightarrow> string list \<Rightarrow> unit action" where
  "edit_frames orc [] = ret ()"
| "edit_frames orc (frame # rest) =
     seq (asyncio_sleep 1)
       (\<lambda>_. seq (call orc TransportError (EditText SyncMessage frame))
          (\<lambda>_. edit_frames orc rest))"

definition show_sync_animation :: "env \<Rightarrow> msg_ref action" where
  "show_sync_animation orc =
     seq (call orc TransportError (ReplyText QueryMessage (hd SYNC_FRAMES) []))
       (\<lambda>_. seq (edit_frames orc (tl SYNC_FRAMES)) (\<lambda>_. ret SyncMessage))"

text \<open>\<open>random.choice(xs)\<close> and \<open>random.randint(a, b)\<close>, from the raw draw of the run.\<close>

definition random_choice :: "env \<Rightarrow> 'a list \<Rightarrow> 'a" where
  "random_choice orc xs = xs ! (rand orc mod length xs)"

definition random_randint :: "env \<Rightarrow> int \<Rightarrow> int \<Rightarrow> int" where
  "random_randint orc a b = a + int (rand orc mod nat (b - a + 1))"

definition footer :: string where
  "footer =
     ''Remember: Read how to bet from the /howtobet command before you proceed!\<newline>\<newline><a href=\"https://matatulord.com?referral_code=W7GNJF\">Make Money with Matatu Game</a>''"

definition handle_color_prediction :: "env \<Rightarrow> update \<Rightarrow> unit action" where
  "handle_color_prediction orc upd =
     (case callback_query upd of
        None \<Rightarrow> throw AttributeError
      | Some from_user \<Rightarrow>
          seq (call orc TransportError (AnswerCallback None False))
            (\<lambda>_. seq (show_sync_animation orc)
               (\<lambda>sync_message.
                  let color = random_choice orc [''RED'', ''GREEN''];
                      image_url = (if color = ''RED'' then ''https://t.me/megahubbots/16''
                                   else ''https://t.me/megahubbots/15'')
                  in seq (add_prediction orc (tg_id from_user) ''color'' color)
                       (\<lambda>_. seq (update_leaderboard orc (tg_id from_user) (tg_username from_user) 1)
                          (\<lambda>_. seq (call orc TransportError (Delete sync_message))
                             (\<lambda>_. call orc TransportError
                                (ReplyPhoto QueryMessage image_url
                                   (''Color Prediction:\<newline>\<newline>'' @ color @ ''\<newline>\<newline>'' @ footer)
                                   [[CallbackButton ''Get Prediction Again'' ''color_prediction'']])))))))"

definition size_label :: "int \<Rightarrow> string" where
  "size_label number = (if number \<le> 4 then ''SMALL'' else ''BIG'')"

definition handle_number_prediction :: "env \<Rightarrow> update \<Rightarrow> unit action" where
  "handle_number_prediction orc upd =
     (case callback_query upd of
        None \<Rightarrow> throw AttributeError
      | Some from_user \<Rightarrow>
          seq (call orc TransportError (AnswerCallback None False))
            (\<lambda>_. seq (show_sync_animation orc)
               (\<lambda>sync_message.
                  let number = random_randint orc 1 10;
                      size = size_label number;
                      image_url = (if size = ''SMALL'' then ''https://t.me/megahubbots/13''
                                   else ''https://t.me/megahubbots/14'')
                  in seq (add_prediction orc (tg_id from_user) ''number''
                            (str_int number @ '' ('' @ size @ '')''))
                       (\<lambda>_. seq (update_leaderboard orc (tg_id from_user) (tg_username from_user) 1)
                          (\<lambda>_. seq (call orc TransportError (Delete sync_message))
                             (\<lambda>_. call orc TransportError
                                (ReplyPhoto QueryMessage image_url
                                   (''Number Prediction:\<newline>\<newline>Number: '' @ str_int number
                                    @ '' ('' @ size @ '')\<newline>\<newline>'' @ footer)
                                   [[CallbackButton ''Get Prediction Again'' ''number_prediction'']])))))))"

subsection \<open>Routing\<close>

text \<open>
  The handlers registered in \<open>main\<close>, in their order: the first that matches runs, and
  an update that matches none is dropped. An exception that leaves a handler ends that
  handler only; the world it had reached stays.
\<close>

text \<open>\<open>str.lower\<close> on ASCII letters: \<open>CommandHandler\<close> compares the lowered command.\<close>

definition lower_char :: "char \<Rightarrow> char" where
  "lower_char c =
     (case map_of (zip ''ABCDEFGHIJKLMNOPQRSTUVWXYZ'' ''abcdefghijklmnopqrstuvwxyz'') c of
        None \<Rightarrow> c
      | Some d \<Rightarrow> d)"

definition lower :: "string \<Rightarrow> string" where
  "lower s = map lower_char s"

text \<open>\<open>re.match('^word$', data)\<close> for a literal word: \<open>$\<close> also matches before a
  newline that ends the data.\<close>

definition re_match_word :: "string \<Rightarrow> string \<Rightarrow> bool" where
  "re_match_word word data = (data = word \<or> data = word @ ''\<newline>'')"

definition route_command :: "config \<Rightarrow> env \<Rightarrow> string \<Rightarrow> update \<Rightarrow> unit action" where
  "route_command cfg orc name upd =
     (if lower name = ''start'' then start cfg orc upd
      else if lower name = ''howtobet'' then how_to_bet cfg orc upd
      else if lower name = ''profile'' then profile cfg orc upd
      else if lower name = ''leaderboard'' then leaderboard orc upd
      else if lower name = ''broadcast'' then broadcast cfg orc upd
      else if lower name = ''stats'' then stats cfg orc upd
      else if lower name = ''contactus'' then contact_us orc upd
      else ret ())"

definition dispatch :: "config \<Rightarrow> env \<Rightarrow> update \<Rightarrow> unit action" where
  "dispatch cfg orc upd =
     (case upd of
        CommandUpdate name _ _ \<Rightarrow> route_command cfg orc name upd
      | EditedCommandUpdate name _ _ \<Rightarrow> route_command cfg orc name upd
      | CallbackUpdate data _ \<Rightarrow>
          if re_match_word ''color_prediction'' data then handle_color_prediction orc upd
          else if re_match_word ''number_prediction'' data then handle_number_prediction orc upd
          else if re_match_word ''verify_membership'' data then verify_membership cfg orc upd
          else ret ()
      | OtherUpdate \<Rightarrow> ret ())"

definition world0 :: world where
  "world0 =
     \<lparr>users_collection = [], predictions_collection = [], leaderboard_collection = [],
      trace = [], logged = []\<rparr>"

text \<open>The worlds the bot can reach from the empty store, one routed update at a time;
  \<open>A\<close> says which answers of the surroundings are admitted.\<close>

inductive reachable :: "(env \<Rightarrow> bool) \<Rightarrow> config \<Rightarrow> world \<Rightarrow> bool"
  for A :: "env \<Rightarrow> bool" and cfg :: config where
  reachable_init: "reachable A cfg world0"
| reachable_step:
    "reachable A cfg w \<Longrightarrow> A orc \<Longrightarrow> reachable A cfg (snd (dispatch cfg orc upd w))"

subsection \<open>Webhook\<close>

text \<open>
  \<open>telegram_webhook\<close>: the body is decoded by \<open>request.json()\<close> and
  \<open>Update.de_json\<close>, library functions taken here as the parameter \<open>parse\<close>; the
  parsed update is put on the update queue and the response \<open>OK\<close> (status 200) is
  returned. An exception of the parser leaves the function before the queue is touched.
\<close>

record response =
  status :: nat
  body_text :: string

definition telegram_webhook ::
  "(string \<Rightarrow> error + 'u) \<Rightarrow> string \<Rightarrow> 'u list \<Rightarrow> (error + response) \<times> 'u list" where
  "telegram_webhook parse body update_queue =
     (case parse body of
        Inl e \<Rightarrow> (Inl e, update_queue)
      | Inr upd \<Rightarrow> (Inr \<lparr>status = 200, body_text = ''OK''\<rparr>, update_queue @ [upd]))"

definition health_check :: response where
  "health_check = \<lparr>status = 200, body_text = ''OK''\<rparr>"

subsection \<open>Notions used in the statements\<close>

text \<open>The three collections of a world.\<close>

definition store :: "world \<Rightarrow> user_doc list \<times> prediction_doc list \<times> leaderboard_doc list" where
  "store w = (users_collection w, predictions_collection w, leaderboard_collection w)"

text \<open>The calls a run added to the trace, given the length the trace had before.\<close>

definition run_trace :: "nat \<Rightarrow> world \<Rightarrow> (event \<times> bool) list" where
  "run_trace n w = drop n (trace w)"

text \<open>The score the leaderboard holds for a user (\<open>find_one\<close>), 0 when it holds none.\<close>

definition score_of :: "int \<Rightarrow> leaderboard_doc list \<Rightarrow> int" where
  "score_of user_id docs =
     (case find (\<lambda>d. l_user_id d = user_id) docs of None \<Rightarrow> 0 | Some d \<Rightarrow> l_score d)"

definition is_reply_photo :: "event \<Rightarrow> bool" where
  "is_reply_photo ev = (case ev of ReplyPhoto _ _ _ _ \<Rightarrow> True | _ \<Rightarrow> False)"

definition is_delete :: "event \<Rightarrow> bool" where
  "is_delete ev = (case ev of Delete _ \<Rightarrow> True | _ \<Rightarrow> False)"

definition is_store_op :: "event \<Rightarrow> bool" where
  "is_store_op ev = (case ev of StoreOp _ \<Rightarrow> True | _ \<Rightarrow> False)"

definition is_join_prompt :: "event \<Rightarrow> bool" where
  "is_join_prompt ev = (case ev of ReplyText _ text _ \<Rightarrow> text = join_prompt | _ \<Rightarrow> False)"

definition leaderboard_users :: "world \<Rightarrow> int set" where
  "leaderboard_users w = set (map l_user_id (leaderboard_collection w))"

definition prediction_users :: "world \<Rightarrow> int set" where
  "prediction_users w = set (map p_user_id (predictions_collection w))"

text \<open>Surroundings in which no call fails.\<close>

definition no_call_fails :: "env \<Rightarrow> bool" where
  "no_call_fails orc = (\<forall>k. \<not> fails orc k)"

text \<open>The three statuses that count as membership.\<close>

definition member_statuses :: "string set" where
  "member_statuses = {''member'', ''administrator'', ''creator''}"

text \<open>A response with a client-error status.\<close>

definition client_error :: "error + response \<Rightarrow> bool" where
  "client_error r = (case r of Inl _ \<Rightarrow> False | Inr resp \<Rightarrow> 400 \<le> status resp \<and> status resp < 500)"

text \<open>Hoare triples for actions: from a world that satisfies \<open>P\<close>, a normal return with
  value \<open>x\<close> ends in a world that satisfies \<open>Q x\<close>, and an exception \<open>e\<close> in one that
  satisfies \<open>E e\<close>.\<close>

definition triple ::
  "(world \<Rightarrow> bool) \<Rightarrow> 'a action \<Rightarrow> ('a \<Rightarrow> world \<Rightarrow> bool) \<Rightarrow> (error \<Rightarrow> world \<Rightarrow> bool) \<Rightarrow> bool" where
  "triple P m Q E =
     (\<forall>w. P w \<longrightarrow> (case m w of (Inl e, w') \<Rightarrow> E e w' | (Inr x, w') \<Rightarrow> Q x w'))"

text \<open>An action that leaves the three collections as they are, on every path.\<close>

definition keeps_store :: "'a action \<Rightarrow> bool" where
  "keeps_store m = (\<forall>w. store (snd (m w)) = store w)"

subsection \<open>Concrete inputs\<close>

definition user7 :: tg_user where
  "user7 = \<lparr>tg_id = 7, tg_username = Some ''ann'', tg_first_name = ''Ann'', tg_last_name = None\<rparr>"

definition cfg2 :: config where
  "cfg2 =
     \<lparr>admin_id = 1,
      required_channels = [''alpha'', ''beta''],
      channel_links = [''https://t.me/alpha'', ''https://t.me/beta'']\<rparr>"

text \<open>Surroundings in which every call succeeds and the user is a member everywhere.\<close>

definition calm :: env where
  "calm =
     \<lparr>get_chat_member = (\<lambda>chat_id user_id. Inr ''member''),
      fails = (\<lambda>k. False),
      now = ''2024-01-01 10:00:00'',
      rand = 0\<rparr>"

text \<open>The same, but the provider reports the user as having left every channel.\<close>

definition outsider :: env where
  "outsider = calm\<lparr>get_chat_member := (\<lambda>chat_id user_id. Inr ''left'')\<rparr>"

text \<open>The same as \<open>calm\<close>, but the membership query for the second channel fails.\<close>

definition beta_down :: env where
  "beta_down =
     calm\<lparr>get_chat_member :=
       (\<lambda>chat_id user_id. if chat_id = ''@beta'' then Inl TransportError else Inr ''member'')\<rparr>"

text \<open>The same as \<open>calm\<close>, but the call at position \<open>k\<close> of the trace fails.\<close>

definition failing_at :: "nat \<Rightarrow> env" where
  "failing_at k = calm\<lparr>fails := (\<lambda>i. i = k)\<rparr>"

definition press_color :: update where
  "press_color = CallbackUpdate ''color_prediction'' user7"

definition press_number :: update where
  "press_number = CallbackUpdate ''number_prediction'' user7"

text \<open>Every answer of the surroundings is admitted.\<close>

definition any_env :: "env \<Rightarrow> bool" where
  "any_env orc = True"

text \<open>The world after user 7, who never sent \<open>/start\<close>, pressed the colour button on the
  empty store; and the same when the leaderboard update (the call at position 8) fails.\<close>

definition after_press :: world where
  "after_press = snd (dispatch cfg2 calm press_color world0)"

definition after_failed_increment :: world where
  "after_failed_increment = snd (dispatch cfg2 (failing_at 8) press_color world0)"

text \<open>The worlds after user 7, whom the provider reports as having left every channel,
  pressed the colour button and the number button on the empty store.\<close>

definition outsider_color :: world where
  "outsider_color = snd (dispatch cfg2 outsider press_color world0)"

definition outsider_number :: world where
  "outsider_number = snd (dispatch cfg2 outsider press_number world0)"

text \<open>The same user under a new first name, and surroundings with a later clock.\<close>

definition user7_renamed :: tg_user where
  "user7_renamed = user7\<lparr>tg_first_name := ''Bob''\<rparr>"

definition later :: env where
  "later = calm\<lparr>now := ''2024-02-02 12:00:00''\<rparr>"

definition added_once :: world where
  "added_once = snd (add_user calm user7 world0)"

definition added_twice :: world where
  "added_twice = snd (add_user later user7_renamed added_once)"

text \<open>A parser that rejects every body.\<close>

definition reject_all :: "string \<Rightarrow> error + update" where
  "reject_all body = Inl MalformedBody"

definition accept_all :: "string \<Rightarrow> error + update" where
  "accept_all body = Inr OtherUpdate"

text \<open>The world after the colour button was pressed and the insert of the record (the
  call at position 7) failed.\<close>

definition after_failed_insert :: world where
  "after_failed_insert = snd (dispatch cfg2 (failing_at 7) press_color world0)"

text \<open>Surroundings like \<open>calm\<close> with the raw draw \<open>k\<close>, the caption of the number
  result, and the worlds after a number prediction with the draws 3 and 4.\<close>

definition draw :: "nat \<Rightarrow> env" where
  "draw k = calm\<lparr>rand := k\<rparr>"

definition number_caption :: "int \<Rightarrow> string" where
  "number_caption number =
     ''Number Prediction:\<newline>\<newline>Number: '' @ str_int number
     @ '' ('' @ size_label number @ '')\<newline>\<newline>'' @ footer"

definition after_small :: world where
  "after_small = snd (handle_number_prediction (draw 3) press_number world0)"

definition after_big :: world where
  "after_big = snd (handle_number_prediction (draw 4) press_number world0)"

text \<open>
  Phases of a prediction run, told from the calls it has added to the trace since
  position \<open>n\<close>: \<open>quiet\<close> while every call has succeeded and nothing was deleted or
  shown; \<open>stopped\<close> when the last call failed before anything was deleted or shown;
  \<open>stores_ok\<close> when no store call has failed.
\<close>

definition quiet :: "nat \<Rightarrow> world \<Rightarrow> bool" where
  "quiet n w =
     (n \<le> length (trace w)
      \<and> list_all (\<lambda>x. snd x \<and> \<not> is_reply_photo (fst x) \<and> \<not> is_delete (fst x)) (run_trace n w))"

definition stopped :: "nat \<Rightarrow> error \<Rightarrow> world \<Rightarrow> bool" where
  "stopped n e w =
     (n \<le> length (trace w)
      \<and> run_trace n w \<noteq> []
      \<and> list_all (\<lambda>x. \<not> is_reply_photo (fst x) \<and> \<not> is_delete (fst x)) (run_trace n w)
      \<and> list_all snd (butlast (run_trace n w))
      \<and> (is_store_op (fst (last (run_trace n w))) \<longrightarrow> e = PersistenceError))"

definition stores_ok :: "nat \<Rightarrow> world \<Rightarrow> bool" where
  "stores_ok n w =
     (n \<le> length (trace w) \<and> list_all (\<lambda>x. is_store_op (fst x) \<longrightarrow> snd x) (run_trace n w))"








text \<open>A world with three leaderboard entries.\<close>

definition three_scores :: world where
  "three_scores =
     world0\<lparr>leaderboard_collection :=
       [\<lparr>l_user_id = 11, l_username = Some ''ann'', l_score = 1\<rparr>,
        \<lparr>l_user_id = 12, l_username = None, l_score = 5\<rparr>,
        \<lparr>l_user_id = 13, l_username = Some ''cy'', l_score = 3\<rparr>]\<rparr>"

definition ask_leaderboard :: update where
  "ask_leaderboard = CommandUpdate ''leaderboard'' user7 []"

text \<open>The store calls a run has added to the trace since position \<open>n\<close>, and the
  statement that they are exactly \<open>calls\<close>.\<close>

definition store_calls :: "nat \<Rightarrow> world \<Rightarrow> (event \<times> bool) list" where
  "store_calls n w = filter (\<lambda>x. is_store_op (fst x)) (run_trace n w)"

definition calls_are :: "nat \<Rightarrow> (event \<times> bool) list \<Rightarrow> world \<Rightarrow> bool" where
  "calls_are n calls w = (n \<le> length (trace w) \<and> store_calls n w = calls)"

text \<open>An action that returns normally from every world.\<close>

definition always_returns :: "'a action \<Rightarrow> bool" where
  "always_returns m = (\<forall>w. \<not> isl (fst (m w)))"

text \<open>
  The store applying a sequence of leaderboard updates (user id, username, increment),
  one whole update at a time, in the order in which they reach it; and the sum of the
  increments of that sequence that are for one user.
\<close>

definition apply_increments ::
  "(int \<times> string option \<times> int) list \<Rightarrow> leaderboard_doc list \<Rightarrow> leaderboard_doc list" where
  "apply_increments incs docs = foldl (\<lambda>ds (u, n, p). inc_score u n p ds) docs incs"

definition increments_for :: "int \<Rightarrow> (int \<times> string option \<times> int) list \<Rightarrow> int" where
  "increments_for user_id incs =
     sum_list (map (\<lambda>(u, n, p). if u = user_id then p else 0) incs)"

text \<open>The world after user 7 pressed the number button on the empty store.\<close>

definition after_number :: world where
  "after_number = snd (handle_number_prediction calm press_number world0)"



definition leaderboard_edited :: update where
  "leaderboard_edited = EditedCommandUpdate ''leaderboard'' user7 []"

section \<open>Reasoning about actions\<close>

subsection \<open>Rules for triples\<close>

lemma triple_ret: "(\<And>w. P w \<Longrightarrow> Q x w) \<Longrightarrow> triple P (ret x) Q E"
  by (simp add: triple_def ret_def)

lemma triple_throw: "(\<And>w. P w \<Longrightarrow> E e w) \<Longrightarrow> triple P (throw e) Q E"
  by (simp add: triple_def throw_def)

lemma triple_seq:
  assumes "triple P m R E" and "\<And>x. triple (R x) (f x) Q E"
  shows "triple P (seq m f) Q E"
  using assms unfolding triple_def seq_def
  by (fastforce split: prod.splits sum.splits)

lemma triple_try:
  assumes "triple P m Q H" and "\<And>e. triple (H e) (h e) Q E"
  shows "triple P (try_except m h) Q E"
  using assms unfolding triple_def try_except_def
  by (fastforce split: prod.splits sum.splits)

lemma triple_weaken:
  assumes "triple P' m Q' E'"
    and "\<And>w. P w \<Longrightarrow> P' w" and "\<And>x w. Q' x w \<Longrightarrow> Q x w" and "\<And>e w. E' e w \<Longrightarrow> E e w"
  shows "triple P m Q E"
  using assms unfolding triple_def
  by (fastforce split: prod.splits sum.splits)

lemma triple_gets: "(\<And>w. P w \<Longrightarrow> Q (f w) w) \<Longrightarrow> triple P (gets f) Q E"
  by (simp add: triple_def gets_def)

lemma tripleD:
  assumes "triple P m Q E" and "P w" and "m w = (r, w')"
  shows "case r of Inl e \<Rightarrow> E e w' | Inr x \<Rightarrow> Q x w'"
  using assms unfolding triple_def by (auto split: sum.splits)

subsection \<open>Actions that keep the store\<close>

lemma keeps_ret: "keeps_store (ret x)"
  by (simp add: keeps_store_def ret_def)

lemma keeps_throw: "keeps_store (throw e)"
  by (simp add: keeps_store_def throw_def)

lemma keeps_lift: "keeps_store (lift r)"
  by (simp add: keeps_store_def lift_def)

lemma keeps_call: "keeps_store (call orc err ev)"
  by (simp add: keeps_store_def call_def store_def Let_def)

lemma keeps_logger_error: "keeps_store (logger_error line)"
  by (simp add: keeps_store_def logger_error_def modify_def store_def)

lemma keeps_asyncio_sleep: "keeps_store (asyncio_sleep n)"
  by (simp add: asyncio_sleep_def keeps_ret)

lemma keeps_seq:
  assumes "keeps_store m" and "\<And>x. keeps_store (f x)"
  shows "keeps_store (seq m f)"
  unfolding keeps_store_def
proof
  fix w
  obtain r w1 where mw: "m w = (r, w1)" by (cases "m w")
  from assms(1) mw have s1: "store w1 = store w"
    unfolding keeps_store_def by (metis snd_conv)
  show "store (snd (seq m f w)) = store w"
  proof (cases r)
    case (Inl e)
    with mw s1 show ?thesis by (simp add: seq_def)
  next
    case (Inr x)
    from assms(2)[of x] have "store (snd (f x w1)) = store w1"
      unfolding keeps_store_def by simp
    with mw s1 Inr show ?thesis by (simp add: seq_def)
  qed
qed

lemma keeps_try:
  assumes "keeps_store m" and "\<And>e. keeps_store (h e)"
  shows "keeps_store (try_except m h)"
  unfolding keeps_store_def
proof
  fix w
  obtain r w1 where mw: "m w = (r, w1)" by (cases "m w")
  from assms(1) mw have s1: "store w1 = store w"
    unfolding keeps_store_def by (metis snd_conv)
  show "store (snd (try_except m h w)) = store w"
  proof (cases r)
    case (Inr x)
    with mw s1 show ?thesis by (simp add: try_except_def)
  next
    case (Inl e)
    from assms(2)[of e] have "store (snd (h e w1)) = store w1"
      unfolding keeps_store_def by simp
    with mw s1 Inl show ?thesis by (simp add: try_except_def)
  qed
qed

lemma keeps_gets: "keeps_store (gets f)"
  by (simp add: keeps_store_def gets_def)

lemma keeps_if:
  "keeps_store m \<Longrightarrow> keeps_store n \<Longrightarrow> keeps_store (if b then m else n)"
  by simp

lemma keeps_bot_get_chat_member: "keeps_store (bot_get_chat_member orc chat uid)"
  by (simp add: keeps_store_def bot_get_chat_member_def store_def Let_def)

lemma keeps_is_user_member_loop: "keeps_store (is_user_member_loop orc uid cs)"
  by (induction cs)
     (auto intro!: keeps_ret keeps_seq keeps_try keeps_bot_get_chat_member keeps_logger_error)

lemma keeps_is_user_member: "keeps_store (is_user_member cfg orc uid)"
  by (simp add: is_user_member_def keeps_is_user_member_loop)

lemma keeps_update_message_reply_text: "keeps_store (update_message_reply_text orc upd text kb)"
  by (cases upd) (simp_all add: update_message_reply_text_def keeps_call keeps_throw)

lemma keeps_ask_user_to_join: "keeps_store (ask_user_to_join cfg orc upd)"
  unfolding ask_user_to_join_def
  by (intro keeps_seq keeps_lift keeps_update_message_reply_text)

lemma keeps_edit_frames: "keeps_store (edit_frames orc frames)"
  by (induction frames) (auto intro!: keeps_ret keeps_seq keeps_call keeps_asyncio_sleep)

lemma keeps_show_sync_animation: "keeps_store (show_sync_animation orc)"
  unfolding show_sync_animation_def
  by (intro keeps_seq keeps_call keeps_edit_frames keeps_ret)

lemma keeps_broadcast_loop: "keeps_store (broadcast_loop orc message ids success)"
  by (induction ids arbitrary: success)
     (auto intro!: keeps_ret keeps_seq keeps_try keeps_call keeps_logger_error)

lemma keeps_get_leaderboard: "keeps_store (get_leaderboard orc)"
  unfolding get_leaderboard_def
  by (intro keeps_seq keeps_call keeps_gets)

lemma keeps_get_user_stats: "keeps_store (get_user_stats orc uid)"
  unfolding get_user_stats_def
  by (intro keeps_seq keeps_call keeps_gets keeps_ret)

lemma keeps_how_to_bet: "keeps_store (how_to_bet cfg orc upd)"
  unfolding how_to_bet_def
  by (cases "effective_user upd")
     (auto intro!: keeps_throw keeps_seq keeps_is_user_member keeps_ask_user_to_join
        keeps_update_message_reply_text)

lemma keeps_profile: "keeps_store (profile cfg orc upd)"
  unfolding profile_def
  by (cases "effective_user upd")
     (auto intro!: keeps_throw keeps_seq keeps_is_user_member keeps_ask_user_to_join
        keeps_update_message_reply_text keeps_get_user_stats split: option.splits)

lemma keeps_leaderboard: "keeps_store (leaderboard orc upd)"
  unfolding leaderboard_def
  by (auto intro!: keeps_seq keeps_get_leaderboard keeps_update_message_reply_text)

lemma keeps_broadcast: "keeps_store (broadcast cfg orc upd)"
  unfolding broadcast_def
  by (cases "effective_user upd")
     (auto intro!: keeps_throw keeps_seq keeps_call keeps_gets keeps_broadcast_loop
        keeps_update_message_reply_text)

lemma keeps_stats: "keeps_store (stats cfg orc upd)"
  unfolding stats_def
  by (cases "effective_user upd")
     (auto intro!: keeps_throw keeps_seq keeps_call keeps_gets
        keeps_update_message_reply_text)

lemma keeps_contact_us: "keeps_store (contact_us orc upd)"
  by (simp add: contact_us_def keeps_update_message_reply_text)

lemma is_user_member_loop_result:
  "fst (is_user_member_loop orc uid cs w) =
     Inr (\<forall>c\<in>set cs. \<exists>s. get_chat_member orc (''@'' @ c) uid = Inr s \<and> s \<in> member_statuses)"
proof (induction cs arbitrary: w)
  case Nil
  show ?case by (simp add: ret_def)
next
  case (Cons c cs)
  show ?case
  proof (cases "get_chat_member orc (''@'' @ c) uid")
    case (Inl e)
    then show ?thesis
      by (simp add: seq_def try_except_def bot_get_chat_member_def ret_def
          logger_error_def modify_def)
  next
    case (Inr s)
    show ?thesis
    proof (cases "s \<in> member_statuses")
      case True
      with Inr show ?thesis
        using Cons.IH
        by (simp add: seq_def try_except_def bot_get_chat_member_def ret_def member_statuses_def)
    next
      case False
      with Inr show ?thesis
        by (simp add: seq_def try_except_def bot_get_chat_member_def ret_def member_statuses_def)
    qed
  qed
qed

subsection \<open>Store effects of the writes\<close>

lemma stable_triple:
  assumes "keeps_store m" and "\<And>w w'. store w = store w' \<Longrightarrow> P w = P w'"
  shows "triple P m (\<lambda>_. P) (\<lambda>_. P)"
  unfolding triple_def
proof (intro allI impI)
  fix w
  assume "P w"
  obtain r w' where mw: "m w = (r, w')" by (cases "m w")
  with assms(1) have "store w' = store w"
    unfolding keeps_store_def by (metis snd_conv)
  with assms(2) \<open>P w\<close> have "P w'" by blast
  with mw show "case m w of (Inl e, w') \<Rightarrow> P w' | (Inr x, w') \<Rightarrow> P w'"
    by (cases r) simp_all
qed

lemma l_user_id_inc_score:
  "l_user_id ` set (inc_score uid uname points docs) = insert uid (l_user_id ` set docs)"
  by (induction docs) auto

lemma lb_sub_pred_stable:
  "store w = store w' \<Longrightarrow>
     (leaderboard_users w \<subseteq> prediction_users w) = (leaderboard_users w' \<subseteq> prediction_users w')"
  by (simp add: store_def leaderboard_users_def prediction_users_def)

lemma pred_sub_lb_stable:
  "store w = store w' \<Longrightarrow>
     (prediction_users w \<subseteq> leaderboard_users w) = (prediction_users w' \<subseteq> leaderboard_users w')"
  by (simp add: store_def leaderboard_users_def prediction_users_def)

lemma add_user_users_only:
  "predictions_collection (snd (add_user orc user w)) = predictions_collection w
   \<and> leaderboard_collection (snd (add_user orc user w)) = leaderboard_collection w"
  by (simp add: add_user_def seq_def call_def modify_def Let_def)

lemma add_prediction_lb_sub_pred:
  "triple (\<lambda>w. leaderboard_users w \<subseteq> prediction_users w)
     (add_prediction orc uid ty res)
     (\<lambda>_ w. leaderboard_users w \<subseteq> prediction_users w \<and> uid \<in> prediction_users w)
     (\<lambda>_ w. leaderboard_users w \<subseteq> prediction_users w)"
  by (auto simp: triple_def add_prediction_def seq_def call_def modify_def Let_def
      leaderboard_users_def prediction_users_def)

lemma update_leaderboard_lb_sub_pred:
  "triple (\<lambda>w. leaderboard_users w \<subseteq> prediction_users w \<and> uid \<in> prediction_users w)
     (update_leaderboard orc uid uname points)
     (\<lambda>_ w. leaderboard_users w \<subseteq> prediction_users w)
     (\<lambda>_ w. leaderboard_users w \<subseteq> prediction_users w)"
  by (auto simp: triple_def update_leaderboard_def seq_def call_def modify_def Let_def
      leaderboard_users_def prediction_users_def l_user_id_inc_score)

lemma add_prediction_pred_sub_lb:
  "triple (\<lambda>w. prediction_users w \<subseteq> leaderboard_users w)
     (add_prediction orc uid ty res)
     (\<lambda>_ w. prediction_users w \<subseteq> insert uid (leaderboard_users w))
     (\<lambda>_ w. prediction_users w \<subseteq> leaderboard_users w)"
  by (auto simp: triple_def add_prediction_def seq_def call_def modify_def Let_def
      leaderboard_users_def prediction_users_def)

lemma update_leaderboard_pred_sub_lb:
  assumes "no_call_fails orc"
  shows "triple (\<lambda>w. prediction_users w \<subseteq> insert uid (leaderboard_users w))
     (update_leaderboard orc uid uname points)
     (\<lambda>_ w. prediction_users w \<subseteq> leaderboard_users w)
     (\<lambda>_ w. prediction_users w \<subseteq> leaderboard_users w)"
  using assms
  by (auto simp: triple_def update_leaderboard_def seq_def call_def modify_def Let_def
      leaderboard_users_def prediction_users_def l_user_id_inc_score no_call_fails_def)

text \<open>The tail both prediction handlers share: the two writes, then the delete and the
  photo.\<close>

lemma prediction_tail_lb_sub_pred:
  "triple (\<lambda>w. leaderboard_users w \<subseteq> prediction_users w)
     (seq (add_prediction orc uid ty res)
        (\<lambda>_. seq (update_leaderboard orc uid uname 1)
           (\<lambda>_. seq (call orc TransportError (Delete sync))
              (\<lambda>_. call orc TransportError ev))))
     (\<lambda>_ w. leaderboard_users w \<subseteq> prediction_users w)
     (\<lambda>_ w. leaderboard_users w \<subseteq> prediction_users w)"
  apply (rule triple_seq [OF add_prediction_lb_sub_pred])
  apply (rule triple_seq [OF update_leaderboard_lb_sub_pred])
  apply (rule triple_seq [OF stable_triple [OF keeps_call lb_sub_pred_stable]], assumption)
  apply (rule stable_triple [OF keeps_call lb_sub_pred_stable], assumption)
  done

lemma prediction_tail_pred_sub_lb:
  assumes "no_call_fails orc"
  shows "triple (\<lambda>w. prediction_users w \<subseteq> leaderboard_users w)
     (seq (add_prediction orc uid ty res)
        (\<lambda>_. seq (update_leaderboard orc uid uname 1)
           (\<lambda>_. seq (call orc TransportError (Delete sync))
              (\<lambda>_. call orc TransportError ev))))
     (\<lambda>_ w. prediction_users w \<subseteq> leaderboard_users w)
     (\<lambda>_ w. prediction_users w \<subseteq> leaderboard_users w)"
  apply (rule triple_seq [OF add_prediction_pred_sub_lb])
  apply (rule triple_seq [OF update_leaderboard_pred_sub_lb [OF assms]])
  apply (rule triple_seq [OF stable_triple [OF keeps_call pred_sub_lb_stable]], assumption)
  apply (rule stable_triple [OF keeps_call pred_sub_lb_stable], assumption)
  done


lemma triple_snd:
  assumes "triple P m (\<lambda>_. Q) (\<lambda>_. Q)" and "P w"
  shows "Q (snd (m w))"
proof -
  obtain r w' where mw: "m w = (r, w')" by (cases "m w")
  from tripleD [OF assms mw] have "Q w'" by (cases r) simp_all
  with mw show ?thesis by simp
qed

lemma add_user_triple:
  assumes "\<And>w w'. predictions_collection w = predictions_collection w' \<Longrightarrow>
             leaderboard_collection w = leaderboard_collection w' \<Longrightarrow> P w = P w'"
  shows "triple P (add_user orc user) (\<lambda>_. P) (\<lambda>_. P)"
  unfolding triple_def
proof (intro allI impI)
  fix w
  assume "P w"
  obtain r w' where mw: "add_user orc user w = (r, w')" by (cases "add_user orc user w")
  with add_user_users_only[of orc user w]
  have "predictions_collection w' = predictions_collection w"
    and "leaderboard_collection w' = leaderboard_collection w" by simp_all
  with assms[of w' w] \<open>P w\<close> have "P w'" by simp
  with mw show "case add_user orc user w of (Inl e, w') \<Rightarrow> P w' | (Inr x, w') \<Rightarrow> P w'"
    by (cases r) simp_all
qed

lemma dispatch_preserves:
  assumes stab: "\<And>w w'. predictions_collection w = predictions_collection w' \<Longrightarrow>
             leaderboard_collection w = leaderboard_collection w' \<Longrightarrow> P w = P w'"
    and tail: "\<And>uid ty res uname sync ev.
      triple P
        (seq (add_prediction orc uid ty res)
           (\<lambda>_. seq (update_leaderboard orc uid uname 1)
              (\<lambda>_. seq (call orc TransportError (Delete sync))
                 (\<lambda>_. call orc TransportError ev))))
        (\<lambda>_. P) (\<lambda>_. P)"
  shows "triple P (dispatch cfg orc upd) (\<lambda>_. P) (\<lambda>_. P)"
proof -
  have keep: "triple P m (\<lambda>_. P) (\<lambda>_. P)" if "keeps_store m" for m :: "'x action"
    using that by (rule stable_triple) (rule stab, simp_all add: store_def)
  have t_start: "triple P (start cfg orc u) (\<lambda>_. P) (\<lambda>_. P)" for u
  proof (cases "effective_user u")
    case None
    then show ?thesis by (simp add: start_def triple_throw)
  next
    case (Some user)
    have "keeps_store (seq (is_user_member cfg orc (tg_id user))
            (\<lambda>member. if \<not> member then ask_user_to_join cfg orc u
               else update_message_reply_text orc u welcome_text
                      [[CallbackButton ''Color Prediction'' ''color_prediction''],
                       [CallbackButton ''Number Prediction'' ''number_prediction'']]))"
      by (auto intro!: keeps_seq keeps_is_user_member keeps_ask_user_to_join
          keeps_update_message_reply_text)
    from keep[OF this] Some show ?thesis
      unfolding start_def
      by (simp add: triple_seq [OF add_user_triple [of P, OF stab]])
  qed
  have t_verify: "triple P (verify_membership cfg orc u) (\<lambda>_. P) (\<lambda>_. P)" for u
  proof (cases "callback_query u")
    case None
    then show ?thesis by (simp add: verify_membership_def triple_throw)
  next
    case (Some from_user)
    show ?thesis
      unfolding verify_membership_def Some option.case
      by (rule triple_seq [OF keep [OF keeps_is_user_member]])
         (simp add: triple_seq [OF keep [OF keeps_call] t_start] keep [OF keeps_call])
  qed
  have t_color: "triple P (handle_color_prediction orc u) (\<lambda>_. P) (\<lambda>_. P)" for u
  proof (cases "callback_query u")
    case None
    then show ?thesis by (simp add: handle_color_prediction_def triple_throw)
  next
    case (Some from_user)
    show ?thesis
      unfolding handle_color_prediction_def Some option.case Let_def
      by (rule triple_seq [OF keep [OF keeps_call]],
          rule triple_seq [OF keep [OF keeps_show_sync_animation]],
          rule tail)
  qed
  have t_number: "triple P (handle_number_prediction orc u) (\<lambda>_. P) (\<lambda>_. P)" for u
  proof (cases "callback_query u")
    case None
    then show ?thesis by (simp add: handle_number_prediction_def triple_throw)
  next
    case (Some from_user)
    show ?thesis
      unfolding handle_number_prediction_def Some option.case Let_def
      by (rule triple_seq [OF keep [OF keeps_call]],
          rule triple_seq [OF keep [OF keeps_show_sync_animation]],
          rule tail)
  qed
  have t_route: "triple P (route_command cfg orc name u) (\<lambda>_. P) (\<lambda>_. P)" for name u
    unfolding route_command_def
    by (simp add: t_start keep [OF keeps_how_to_bet] keep [OF keeps_profile]
        keep [OF keeps_leaderboard] keep [OF keeps_broadcast] keep [OF keeps_stats]
        keep [OF keeps_contact_us] triple_ret)
  show ?thesis
  proof (cases upd)
    case (CommandUpdate name user args)
    then show ?thesis by (simp add: dispatch_def t_route)
  next
    case (EditedCommandUpdate name user args)
    then show ?thesis by (simp add: dispatch_def t_route)
  next
    case (CallbackUpdate data user)
    then show ?thesis
      unfolding dispatch_def
      by (simp add: t_color t_number t_verify triple_ret)
  next
    case OtherUpdate
    then show ?thesis by (simp add: dispatch_def triple_ret)
  qed
qed

lemma dispatch_lb_sub_pred:
  assumes "leaderboard_users w \<subseteq> prediction_users w"
  shows "leaderboard_users (snd (dispatch cfg orc upd w))
         \<subseteq> prediction_users (snd (dispatch cfg orc upd w))"
proof -
  have "triple (\<lambda>w. leaderboard_users w \<subseteq> prediction_users w) (dispatch cfg orc upd)
          (\<lambda>_ w. leaderboard_users w \<subseteq> prediction_users w)
          (\<lambda>_ w. leaderboard_users w \<subseteq> prediction_users w)"
  proof (rule dispatch_preserves)
    show "\<And>w w'. predictions_collection w = predictions_collection w' \<Longrightarrow>
             leaderboard_collection w = leaderboard_collection w' \<Longrightarrow>
             (leaderboard_users w \<subseteq> prediction_users w)
             = (leaderboard_users w' \<subseteq> prediction_users w')"
      by (simp add: leaderboard_users_def prediction_users_def)
  qed (rule prediction_tail_lb_sub_pred)
  from triple_snd [OF this assms] show ?thesis .
qed

lemma dispatch_pred_sub_lb:
  assumes "prediction_users w \<subseteq> leaderboard_users w" and "no_call_fails orc"
  shows "prediction_users (snd (dispatch cfg orc upd w))
         \<subseteq> leaderboard_users (snd (dispatch cfg orc upd w))"
proof -
  have "triple (\<lambda>w. prediction_users w \<subseteq> leaderboard_users w) (dispatch cfg orc upd)
          (\<lambda>_ w. prediction_users w \<subseteq> leaderboard_users w)
          (\<lambda>_ w. prediction_users w \<subseteq> leaderboard_users w)"
  proof (rule dispatch_preserves)
    show "\<And>w w'. predictions_collection w = predictions_collection w' \<Longrightarrow>
             leaderboard_collection w = leaderboard_collection w' \<Longrightarrow>
             (prediction_users w \<subseteq> leaderboard_users w)
             = (prediction_users w' \<subseteq> leaderboard_users w')"
      by (simp add: leaderboard_users_def prediction_users_def)
  qed (rule prediction_tail_pred_sub_lb [OF assms(2)])
  from triple_snd [OF this assms(1)] show ?thesis .
qed

text \<open>Unfolding a concrete run of a prediction handler.\<close>

lemmas run_defs = dispatch_def re_match_word_def handle_color_prediction_def handle_number_prediction_def
  show_sync_animation_def SYNC_FRAMES_def add_prediction_def update_leaderboard_def
  seq_def call_def modify_def ret_def throw_def gets_def callback_query_def
  random_choice_def random_randint_def size_label_def asyncio_sleep_def Let_def

lemmas input_defs = press_color_def press_number_def outsider_def calm_def failing_at_def
  world0_def user7_def cfg2_def

lemma score_of_inc_score_same:
  "score_of uid (inc_score uid uname points docs) = score_of uid docs + points"
  by (induction docs) (simp_all add: score_of_def)

lemma score_of_inc_score_other:
  "v \<noteq> uid \<Longrightarrow> score_of v (inc_score uid uname points docs) = score_of v docs"
  by (induction docs) (simp_all add: score_of_def)

lemma keep_store_eq:
  assumes "keeps_store m"
  shows "triple (\<lambda>w. store w = s) m (\<lambda>_ w. store w = s) (\<lambda>_ _. True)"
  by (rule triple_weaken [OF stable_triple [OF assms, of "\<lambda>w. store w = s"]]) simp_all

lemma prediction_tail_effect:
  "triple (\<lambda>w. store w = (us, ps, lb))
     (seq (add_prediction orc uid ty res)
        (\<lambda>_. seq (update_leaderboard orc uid uname 1)
           (\<lambda>_. seq (call orc TransportError (Delete sync))
              (\<lambda>_. call orc TransportError ev))))
     (\<lambda>_ w. store w =
        (us,
         ps @ [\<lparr>p_user_id = uid, p_type = ty, p_result = res, p_timestamp = now orc\<rparr>],
         inc_score uid uname 1 lb))
     (\<lambda>_ _. True)"
proof -
  let ?s1 = "(us, ps @ [\<lparr>p_user_id = uid, p_type = ty, p_result = res, p_timestamp = now orc\<rparr>], lb)"
  let ?s2 = "(us, ps @ [\<lparr>p_user_id = uid, p_type = ty, p_result = res, p_timestamp = now orc\<rparr>],
              inc_score uid uname 1 lb)"
  have a: "triple (\<lambda>w. store w = (us, ps, lb)) (add_prediction orc uid ty res)
             (\<lambda>_ w. store w = ?s1) (\<lambda>_ _. True)"
    by (auto simp: triple_def add_prediction_def seq_def call_def modify_def Let_def store_def)
  have b: "triple (\<lambda>w. store w = ?s1) (update_leaderboard orc uid uname 1)
             (\<lambda>_ w. store w = ?s2) (\<lambda>_ _. True)"
    by (auto simp: triple_def update_leaderboard_def seq_def call_def modify_def Let_def store_def)
  show ?thesis
    by (rule triple_seq [OF a], rule triple_seq [OF b],
        rule triple_seq [OF keep_store_eq [OF keeps_call]],
        rule keep_store_eq [OF keeps_call])
qed

lemma handle_color_prediction_effect:
  assumes "handle_color_prediction orc upd w = (Inr (), w')"
  shows "\<exists>from_user. callback_query upd = Some from_user
     \<and> store w' =
        (users_collection w,
         predictions_collection w @
           [\<lparr>p_user_id = tg_id from_user, p_type = ''color'',
             p_result = random_choice orc [''RED'', ''GREEN''], p_timestamp = now orc\<rparr>],
         inc_score (tg_id from_user) (tg_username from_user) 1 (leaderboard_collection w))"
proof (cases "callback_query upd")
  case None
  with assms show ?thesis by (simp add: handle_color_prediction_def throw_def)
next
  case (Some from_user)
  have "triple (\<lambda>v. store v = store w) (handle_color_prediction orc upd)
     (\<lambda>_ v. store v =
        (users_collection w,
         predictions_collection w @
           [\<lparr>p_user_id = tg_id from_user, p_type = ''color'',
             p_result = random_choice orc [''RED'', ''GREEN''], p_timestamp = now orc\<rparr>],
         inc_score (tg_id from_user) (tg_username from_user) 1 (leaderboard_collection w)))
     (\<lambda>_ _. True)"
    unfolding handle_color_prediction_def Some option.case Let_def
    by (rule triple_seq [OF keep_store_eq [OF keeps_call]],
        rule triple_seq [OF keep_store_eq [OF keeps_show_sync_animation]],
        unfold store_def [of w], rule prediction_tail_effect)
  from tripleD [OF this _ assms] Some show ?thesis by simp
qed

lemma handle_number_prediction_effect:
  assumes "handle_number_prediction orc upd w = (Inr (), w')"
  shows "\<exists>from_user. callback_query upd = Some from_user
     \<and> store w' =
        (users_collection w,
         predictions_collection w @
           [\<lparr>p_user_id = tg_id from_user, p_type = ''number'',
             p_result = str_int (random_randint orc 1 10) @ '' (''
                        @ size_label (random_randint orc 1 10) @ '')'',
             p_timestamp = now orc\<rparr>],
         inc_score (tg_id from_user) (tg_username from_user) 1 (leaderboard_collection w))"
proof (cases "callback_query upd")
  case None
  with assms show ?thesis by (simp add: handle_number_prediction_def throw_def)
next
  case (Some from_user)
  have "triple (\<lambda>v. store v = store w) (handle_number_prediction orc upd)
     (\<lambda>_ v. store v =
        (users_collection w,
         predictions_collection w @
           [\<lparr>p_user_id = tg_id from_user, p_type = ''number'',
             p_result = str_int (random_randint orc 1 10) @ '' (''
                        @ size_label (random_randint orc 1 10) @ '')'',
             p_timestamp = now orc\<rparr>],
         inc_score (tg_id from_user) (tg_username from_user) 1 (leaderboard_collection w)))
     (\<lambda>_ _. True)"
    unfolding handle_number_prediction_def Some option.case Let_def
    by (rule triple_seq [OF keep_store_eq [OF keeps_call]],
        rule triple_seq [OF keep_store_eq [OF keeps_show_sync_animation]],
        unfold store_def [of w], rule prediction_tail_effect)
  from tripleD [OF this _ assms] Some show ?thesis by simp
qed

lemma triple_any: "triple P m (\<lambda>_ _. True) (\<lambda>_ _. True)"
  by (simp add: triple_def split: prod.splits sum.splits)

lemma call_last:
  "triple P (call orc err ev) (\<lambda>_ w. last (trace w) = (ev, True)) (\<lambda>_ _. True)"
  by (simp add: triple_def call_def Let_def)

lemma handle_number_prediction_photo:
  assumes "handle_number_prediction orc upd w = (Inr (), w')"
  shows "last (trace w') =
     (ReplyPhoto QueryMessage
        (if size_label (random_randint orc 1 10) = ''SMALL'' then ''https://t.me/megahubbots/13''
         else ''https://t.me/megahubbots/14'')
        (number_caption (random_randint orc 1 10))
        [[CallbackButton ''Get Prediction Again'' ''number_prediction'']], True)"
proof (cases "callback_query upd")
  case None
  with assms show ?thesis by (simp add: handle_number_prediction_def throw_def)
next
  case (Some from_user)
  have "triple (\<lambda>_. True) (handle_number_prediction orc upd)
     (\<lambda>_ v. last (trace v) =
       (ReplyPhoto QueryMessage
        (if size_label (random_randint orc 1 10) = ''SMALL'' then ''https://t.me/megahubbots/13''
         else ''https://t.me/megahubbots/14'')
        (number_caption (random_randint orc 1 10))
        [[CallbackButton ''Get Prediction Again'' ''number_prediction'']], True))
     (\<lambda>_ _. True)"
    unfolding handle_number_prediction_def Some option.case Let_def number_caption_def
    by (rule triple_seq [OF triple_any], rule triple_seq [OF triple_any],
        rule triple_seq [OF triple_any], rule triple_seq [OF triple_any],
        rule triple_seq [OF triple_any], rule call_last)
  from tripleD [OF this _ assms] show ?thesis by simp
qed

lemma call_quiet:
  assumes "\<not> is_reply_photo ev" and "\<not> is_delete ev"
    and "is_store_op ev \<Longrightarrow> err = PersistenceError"
  shows "triple (quiet n) (call orc err ev) (\<lambda>_. quiet n) (stopped n)"
  using assms
  by (auto simp: triple_def call_def Let_def quiet_def stopped_def run_trace_def list_all_iff)

lemma quiet_stores_ok: "quiet n w \<Longrightarrow> stores_ok n w"
  by (auto simp: quiet_def stores_ok_def list_all_iff)

lemma call_stores_ok:
  assumes "\<not> is_store_op ev"
  shows "triple (stores_ok n) (call orc err ev) (\<lambda>_. stores_ok n) (\<lambda>_. stores_ok n)"
  using assms
  by (auto simp: triple_def call_def Let_def stores_ok_def run_trace_def list_all_iff)

lemma stopped_weaken:
  assumes "triple (quiet n) m (\<lambda>_. quiet n) (stopped n)"
  shows "triple (quiet n) m (\<lambda>_. quiet n) (\<lambda>e w. stopped n e w \<or> stores_ok n w)"
  using assms unfolding triple_def by (fastforce split: prod.splits sum.splits)

lemma stopped_weaken_stores:
  assumes "triple (quiet n) m (\<lambda>_. quiet n) (stopped n)"
  shows "triple (quiet n) m (\<lambda>_. stores_ok n) (\<lambda>e w. stopped n e w \<or> stores_ok n w)"
  using assms quiet_stores_ok unfolding triple_def
  by (fastforce split: prod.splits sum.splits)

lemma stores_ok_weaken:
  assumes "triple (stores_ok n) m (\<lambda>_. stores_ok n) (\<lambda>_. stores_ok n)"
  shows "triple (stores_ok n) m (\<lambda>_. stores_ok n) (\<lambda>e w. stopped n e w \<or> stores_ok n w)"
  using assms unfolding triple_def by (fastforce split: prod.splits sum.splits)

lemma add_prediction_quiet:
  "triple (quiet n) (add_prediction orc uid ty res) (\<lambda>_. quiet n) (stopped n)"
  by (auto simp: triple_def add_prediction_def seq_def modify_def call_def Let_def quiet_def
      stopped_def run_trace_def list_all_iff is_reply_photo_def is_delete_def)

lemma update_leaderboard_quiet:
  "triple (quiet n) (update_leaderboard orc uid uname points) (\<lambda>_. quiet n) (stopped n)"
  by (auto simp: triple_def update_leaderboard_def seq_def modify_def call_def Let_def quiet_def
      stopped_def run_trace_def list_all_iff is_reply_photo_def is_delete_def)

lemma edit_frames_quiet:
  "triple (quiet n) (edit_frames orc frames) (\<lambda>_. quiet n) (stopped n)"
proof (induction frames)
  case Nil
  show ?case by (simp add: triple_ret)
next
  case (Cons frame rest)
  have c: "triple (quiet n) (call orc TransportError (EditText SyncMessage frame))
             (\<lambda>_. quiet n) (stopped n)"
    by (rule call_quiet) (simp_all add: is_reply_photo_def is_delete_def is_store_op_def)
  show ?case
    unfolding edit_frames.simps asyncio_sleep_def
    by (rule triple_seq [OF triple_ret], assumption, rule triple_seq [OF c], rule Cons.IH)
qed

lemma show_sync_animation_quiet:
  "triple (quiet n) (show_sync_animation orc) (\<lambda>_. quiet n) (stopped n)"
proof -
  have c: "triple (quiet n) (call orc TransportError (ReplyText QueryMessage (hd SYNC_FRAMES) []))
             (\<lambda>_. quiet n) (stopped n)"
    by (rule call_quiet) (simp_all add: is_reply_photo_def is_delete_def is_store_op_def)
  show ?thesis
    unfolding show_sync_animation_def
    by (rule triple_seq [OF c], rule triple_seq [OF edit_frames_quiet], rule triple_ret)
qed

lemma prediction_tail_phases:
  assumes "\<not> is_store_op ev"
  shows "triple (quiet n)
     (seq (add_prediction orc uid ty res)
        (\<lambda>_. seq (update_leaderboard orc uid uname 1)
           (\<lambda>_. seq (call orc TransportError (Delete sync))
              (\<lambda>_. call orc TransportError ev))))
     (\<lambda>_. stores_ok n)
     (\<lambda>e w. stopped n e w \<or> stores_ok n w)"
proof -
  have a: "triple (quiet n) (add_prediction orc uid ty res) (\<lambda>_. quiet n)
             (\<lambda>e w. stopped n e w \<or> stores_ok n w)"
    by (rule stopped_weaken [OF add_prediction_quiet])
  have b: "triple (quiet n) (update_leaderboard orc uid uname 1) (\<lambda>_. stores_ok n)
             (\<lambda>e w. stopped n e w \<or> stores_ok n w)"
    by (rule stopped_weaken_stores [OF update_leaderboard_quiet])
  have c: "triple (stores_ok n) (call orc TransportError (Delete sync)) (\<lambda>_. stores_ok n)
             (\<lambda>e w. stopped n e w \<or> stores_ok n w)"
    by (rule stores_ok_weaken [OF call_stores_ok]) (simp add: is_store_op_def)
  have d: "triple (stores_ok n) (call orc TransportError ev) (\<lambda>_. stores_ok n)
             (\<lambda>e w. stopped n e w \<or> stores_ok n w)"
    by (rule stores_ok_weaken [OF call_stores_ok [OF assms]])
  show ?thesis
    by (rule triple_seq [OF a], rule triple_seq [OF b], rule triple_seq [OF c], rule d)
qed

lemma prediction_head_phases:
  assumes "\<And>sync. triple (quiet n) (rest sync) (\<lambda>_. stores_ok n)
             (\<lambda>e w. stopped n e w \<or> stores_ok n w)"
  shows "triple (quiet n)
     (seq (call orc TransportError (AnswerCallback None False))
        (\<lambda>_. seq (show_sync_animation orc) rest))
     (\<lambda>_. stores_ok n)
     (\<lambda>e w. stopped n e w \<or> stores_ok n w)"
proof -
  have a: "triple (quiet n) (call orc TransportError (AnswerCallback None False)) (\<lambda>_. quiet n)
             (\<lambda>e w. stopped n e w \<or> stores_ok n w)"
    by (rule stopped_weaken [OF call_quiet])
       (simp_all add: is_reply_photo_def is_delete_def is_store_op_def)
  have b: "triple (quiet n) (show_sync_animation orc) (\<lambda>_. quiet n)
             (\<lambda>e w. stopped n e w \<or> stores_ok n w)"
    by (rule stopped_weaken [OF show_sync_animation_quiet])
  show ?thesis
    by (rule triple_seq [OF a], rule triple_seq [OF b], rule assms)
qed

lemma handle_color_prediction_phases:
  "triple (quiet n) (handle_color_prediction orc upd) (\<lambda>_. stores_ok n)
     (\<lambda>e w. stopped n e w \<or> stores_ok n w)"
proof (cases "callback_query upd")
  case None
  then show ?thesis
    by (simp add: handle_color_prediction_def triple_throw quiet_stores_ok)
next
  case (Some from_user)
  show ?thesis
    unfolding handle_color_prediction_def Some option.case Let_def
    by (rule prediction_head_phases, rule prediction_tail_phases) (simp add: is_store_op_def)
qed

lemma handle_number_prediction_phases:
  "triple (quiet n) (handle_number_prediction orc upd) (\<lambda>_. stores_ok n)
     (\<lambda>e w. stopped n e w \<or> stores_ok n w)"
proof (cases "callback_query upd")
  case None
  then show ?thesis
    by (simp add: handle_number_prediction_def triple_throw quiet_stores_ok)
next
  case (Some from_user)
  show ?thesis
    unfolding handle_number_prediction_def Some option.case Let_def
    by (rule prediction_head_phases, rule prediction_tail_phases) (simp add: is_store_op_def)
qed

lemma quiet_start: "quiet (length (trace w)) w"
  by (simp add: quiet_def run_trace_def)

lemma stopped_failed_store:
  assumes "stopped n e w" and "(StoreOp op, False) \<in> set (run_trace n w)"
  shows "e = PersistenceError \<and> last (trace w) = (StoreOp op, False)
         \<and> filter (\<lambda>x. is_reply_photo (fst x) \<or> is_delete (fst x)) (run_trace n w) = []"
proof -
  let ?rt = "run_trace n w"
  from assms(1) have ne: "?rt \<noteq> []" and bl: "list_all snd (butlast ?rt)"
    and np: "list_all (\<lambda>x. \<not> is_reply_photo (fst x) \<and> \<not> is_delete (fst x)) ?rt"
    and st: "is_store_op (fst (last ?rt)) \<Longrightarrow> e = PersistenceError"
    and le: "n \<le> length (trace w)"
    by (simp_all add: stopped_def)
  from ne have split: "?rt = butlast ?rt @ [last ?rt]" by simp
  from bl assms(2) have "(StoreOp op, False) \<notin> set (butlast ?rt)"
    by (auto simp: list_all_iff)
  with assms(2) split have l: "last ?rt = (StoreOp op, False)"
    by (metis Un_iff empty_iff empty_set set_ConsD set_append)
  with st have e: "e = PersistenceError" by (simp add: is_store_op_def)
  from ne have "last (trace w) = last ?rt"
    by (simp add: run_trace_def)
  with l e np show ?thesis by (auto simp: list_all_iff filter_empty_conv)
qed






lemma leaderboard_loop_closed:
  "leaderboard_loop i data shown
     = shown @ concat (map2 leaderboard_line [i..<i + length data] data)"
proof (induction data arbitrary: i shown)
  case Nil
  show ?case by simp
next
  case (Cons d rest)
  have "[i..<i + length (d # rest)] = i # [Suc i..<Suc i + length rest]"
    by (subst upt_rec) (simp del: upt_Suc)
  with Cons.IH [of "Suc i" "shown @ leaderboard_line i d"] show ?case by simp
qed

lemma top10_sorted:
  "sorted_wrt (\<lambda>a b. l_score b \<le> l_score a)
     (take 10 (sort_key (\<lambda>d. - l_score d) docs))"
proof -
  have "sorted (map (\<lambda>d. - l_score d) (sort_key (\<lambda>d. - l_score d) docs))"
    by (rule sorted_sort_key)
  then have "sorted_wrt (\<lambda>a b. l_score b \<le> l_score a) (sort_key (\<lambda>d. - l_score d) docs)"
    by (simp add: sorted_wrt_map)
  then show ?thesis by (rule sorted_wrt_take)
qed

lemma top10_facts:
  "length (take 10 (sort_key (\<lambda>d. - l_score d) docs)) = min 10 (length docs)
   \<and> set (take 10 (sort_key (\<lambda>d. - l_score d) docs)) \<subseteq> set docs"
  using set_take_subset [of 10 "sort_key (\<lambda>d. - l_score d) docs"] by auto

lemma get_leaderboard_result:
  assumes "get_leaderboard orc w = (Inr data, w')"
  shows "data = take 10 (sort_key (\<lambda>d. - l_score d) (leaderboard_collection w))"
  using assms
  by (auto simp: get_leaderboard_def seq_def call_def gets_def Let_def split: if_splits)

lemma get_leaderboard_run:
  assumes "\<not> fails orc (length (trace w))"
  shows "get_leaderboard orc w
     = (Inr (take 10 (sort_key (\<lambda>d. - l_score d) (leaderboard_collection w))),
        w\<lparr>trace := trace w @ [(StoreOp LeaderboardFind, True)]\<rparr>)"
  using assms by (simp add: get_leaderboard_def seq_def call_def gets_def Let_def)

subsection \<open>The store calls of a run\<close>

lemma calls_are_start: "calls_are (length (trace w)) [] w"
  by (simp add: calls_are_def store_calls_def run_trace_def)

lemma call_other_calls_are:
  assumes "\<not> is_store_op ev"
  shows "triple (calls_are n L) (call orc err ev) (\<lambda>_. calls_are n L) (\<lambda>_ _. True)"
  using assms
  by (auto simp: triple_def call_def Let_def calls_are_def store_calls_def run_trace_def)

lemma add_prediction_calls_are:
  "triple (calls_are n L) (add_prediction orc uid ty res)
     (\<lambda>_. calls_are n (L @ [(StoreOp (PredictionsInsertOne uid), True)])) (\<lambda>_ _. True)"
  by (auto simp: triple_def add_prediction_def seq_def modify_def call_def Let_def calls_are_def
      store_calls_def run_trace_def is_store_op_def)

lemma update_leaderboard_calls_are:
  "triple (calls_are n L) (update_leaderboard orc uid uname points)
     (\<lambda>_. calls_are n (L @ [(StoreOp (LeaderboardUpdateOne uid uname points), True)]))
     (\<lambda>_ _. True)"
  by (auto simp: triple_def update_leaderboard_def seq_def modify_def call_def Let_def
      calls_are_def store_calls_def run_trace_def is_store_op_def)

lemma edit_frames_calls_are:
  "triple (calls_are n L) (edit_frames orc frames) (\<lambda>_. calls_are n L) (\<lambda>_ _. True)"
proof (induction frames)
  case Nil
  show ?case by (simp add: triple_ret)
next
  case (Cons frame rest)
  have c: "triple (calls_are n L) (call orc TransportError (EditText SyncMessage frame))
             (\<lambda>_. calls_are n L) (\<lambda>_ _. True)"
    by (rule call_other_calls_are) (simp add: is_store_op_def)
  show ?case
    unfolding edit_frames.simps asyncio_sleep_def
    by (rule triple_seq [OF triple_ret], assumption, rule triple_seq [OF c], rule Cons.IH)
qed

lemma show_sync_animation_calls_are:
  "triple (calls_are n L) (show_sync_animation orc) (\<lambda>_. calls_are n L) (\<lambda>_ _. True)"
proof -
  have c: "triple (calls_are n L)
             (call orc TransportError (ReplyText QueryMessage (hd SYNC_FRAMES) []))
             (\<lambda>_. calls_are n L) (\<lambda>_ _. True)"
    by (rule call_other_calls_are) (simp add: is_store_op_def)
  show ?thesis
    unfolding show_sync_animation_def
    by (rule triple_seq [OF c], rule triple_seq [OF edit_frames_calls_are], rule triple_ret)
qed

lemma prediction_run_calls_are:
  assumes "\<not> is_store_op ev"
  shows "triple (calls_are n [])
     (seq (call orc TransportError (AnswerCallback None False))
        (\<lambda>_. seq (show_sync_animation orc)
           (\<lambda>sync. seq (add_prediction orc uid ty res)
              (\<lambda>_. seq (update_leaderboard orc uid uname 1)
                 (\<lambda>_. seq (call orc TransportError (Delete sync))
                    (\<lambda>_. call orc TransportError ev))))))
     (\<lambda>_. calls_are n
        [(StoreOp (PredictionsInsertOne uid), True),
         (StoreOp (LeaderboardUpdateOne uid uname 1), True)])
     (\<lambda>_ _. True)"
proof -
  have a: "triple (calls_are n []) (call orc TransportError (AnswerCallback None False))
             (\<lambda>_. calls_are n []) (\<lambda>_ _. True)"
    by (rule call_other_calls_are) (simp add: is_store_op_def)
  have d: "triple (calls_are n L) (call orc TransportError (Delete sync))
             (\<lambda>_. calls_are n L) (\<lambda>_ _. True)" for L sync
    by (rule call_other_calls_are) (simp add: is_store_op_def)
  show ?thesis
    using add_prediction_calls_are [of n "[]" orc uid ty res]
      update_leaderboard_calls_are
        [of n "[(StoreOp (PredictionsInsertOne uid), True)]" orc uid uname 1]
    by (intro triple_seq [OF a] triple_seq [OF show_sync_animation_calls_are]
        triple_seq [where R = "\<lambda>_. calls_are n [(StoreOp (PredictionsInsertOne uid), True)]"]
        triple_seq [where R = "\<lambda>_. calls_are n
          [(StoreOp (PredictionsInsertOne uid), True),
           (StoreOp (LeaderboardUpdateOne uid uname 1), True)]"]
        d call_other_calls_are [OF assms]) simp_all
qed

lemma handle_color_prediction_calls:
  assumes "handle_color_prediction orc upd w = (Inr (), w')"
    and "callback_query upd = Some from_user"
  shows "store_calls (length (trace w)) w' =
     [(StoreOp (PredictionsInsertOne (tg_id from_user)), True),
      (StoreOp (LeaderboardUpdateOne (tg_id from_user) (tg_username from_user) 1), True)]"
proof -
  have "triple (calls_are (length (trace w)) []) (handle_color_prediction orc upd)
     (\<lambda>_. calls_are (length (trace w))
        [(StoreOp (PredictionsInsertOne (tg_id from_user)), True),
         (StoreOp (LeaderboardUpdateOne (tg_id from_user) (tg_username from_user) 1), True)])
     (\<lambda>_ _. True)"
    unfolding handle_color_prediction_def assms(2) option.case Let_def
    by (rule prediction_run_calls_are) (simp add: is_store_op_def)
  from tripleD [OF this calls_are_start assms(1)] show ?thesis
    by (simp add: calls_are_def)
qed

lemma handle_number_prediction_calls:
  assumes "handle_number_prediction orc upd w = (Inr (), w')"
    and "callback_query upd = Some from_user"
  shows "store_calls (length (trace w)) w' =
     [(StoreOp (PredictionsInsertOne (tg_id from_user)), True),
      (StoreOp (LeaderboardUpdateOne (tg_id from_user) (tg_username from_user) 1), True)]"
proof -
  have "triple (calls_are (length (trace w)) []) (handle_number_prediction orc upd)
     (\<lambda>_. calls_are (length (trace w))
        [(StoreOp (PredictionsInsertOne (tg_id from_user)), True),
         (StoreOp (LeaderboardUpdateOne (tg_id from_user) (tg_username from_user) 1), True)])
     (\<lambda>_ _. True)"
    unfolding handle_number_prediction_def assms(2) option.case Let_def
    by (rule prediction_run_calls_are) (simp add: is_store_op_def)
  from tripleD [OF this calls_are_start assms(1)] show ?thesis
    by (simp add: calls_are_def)
qed

subsection \<open>Runs in which no call fails\<close>

lemma always_returns_ret: "always_returns (ret x)"
  by (simp add: always_returns_def ret_def)

lemma always_returns_modify: "always_returns (modify f)"
  by (simp add: always_returns_def modify_def)

lemma always_returns_call: "no_call_fails orc \<Longrightarrow> always_returns (call orc err ev)"
  by (simp add: always_returns_def call_def Let_def no_call_fails_def)

lemma always_returns_seq:
  assumes "always_returns m" and "\<And>x. always_returns (f x)"
  shows "always_returns (seq m f)"
  unfolding always_returns_def
proof
  fix w
  obtain r w1 where mw: "m w = (r, w1)" by (cases "m w")
  from assms(1) have "\<not> isl (fst (m w))" by (simp add: always_returns_def)
  with mw obtain x where r: "r = Inr x" by (cases r) simp_all
  from assms(2) [of x] have "\<not> isl (fst (f x w1))" by (simp add: always_returns_def)
  with mw r show "\<not> isl (fst (seq m f w))" by (simp add: seq_def)
qed

lemma always_returns_edit_frames:
  "no_call_fails orc \<Longrightarrow> always_returns (edit_frames orc frames)"
  by (induction frames)
     (auto intro!: always_returns_ret always_returns_seq always_returns_call
        simp: asyncio_sleep_def)

lemma always_returns_prediction_run:
  assumes "no_call_fails orc"
  shows "always_returns
     (seq (call orc TransportError (AnswerCallback None False))
        (\<lambda>_. seq (show_sync_animation orc)
           (\<lambda>sync. seq (add_prediction orc uid ty res)
              (\<lambda>_. seq (update_leaderboard orc uid uname 1)
                 (\<lambda>_. seq (call orc TransportError (Delete sync))
                    (\<lambda>_. call orc TransportError ev))))))"
  unfolding show_sync_animation_def add_prediction_def update_leaderboard_def
  by (intro always_returns_seq always_returns_call always_returns_edit_frames
      always_returns_ret always_returns_modify assms)

lemma prediction_completes:
  assumes "no_call_fails orc" and "callback_query upd = Some from_user"
  shows "fst (handle_color_prediction orc upd w) = Inr ()
         \<and> fst (handle_number_prediction orc upd w) = Inr ()"
proof -
  have c: "always_returns (handle_color_prediction orc upd)"
    unfolding handle_color_prediction_def assms(2) option.case Let_def
    by (rule always_returns_prediction_run [OF assms(1)])
  have n: "always_returns (handle_number_prediction orc upd)"
    unfolding handle_number_prediction_def assms(2) option.case Let_def
    by (rule always_returns_prediction_run [OF assms(1)])
  have "r = Inr ()" if "\<not> isl r" for r :: "error + unit"
    using that by (cases r) simp_all
  with c n show ?thesis by (simp add: always_returns_def)
qed

subsection \<open>Increments applied by the store add up\<close>

lemma score_of_inc_score:
  "score_of v (inc_score u n p docs) = score_of v docs + (if u = v then p else 0)"
  by (simp add: score_of_inc_score_same score_of_inc_score_other)

lemma score_of_apply_increments:
  "score_of v (apply_increments incs docs) = score_of v docs + increments_for v incs"
proof (induction incs arbitrary: docs)
  case Nil
  show ?case by (simp add: apply_increments_def increments_for_def)
next
  case (Cons i incs)
  obtain u n p where i: "i = (u, n, p)" by (cases i)
  from Cons.IH [of "inc_score u n p docs"] show ?case
    by (simp add: apply_increments_def increments_for_def i score_of_inc_score)
qed

subsection \<open>Replies, the broadcast and the leaderboard\<close>

lemma reply_outcome:
  "update_message_reply_text orc upd text kb w
     = (if has_message upd
        then (if fails orc (length (trace w)) then Inl TransportError else Inr (),
              w\<lparr>trace := trace w
                   @ [(ReplyText UpdateMessage text kb, \<not> fails orc (length (trace w)))]\<rparr>)
        else (Inl AttributeError, w))"
  by (cases upd)
     (simp_all add: update_message_reply_text_def has_message_def call_def throw_def Let_def)




lemma leaderboard_read_fails:
  assumes "fails orc (length (trace w))"
  shows "leaderboard orc upd w
     = (Inl PersistenceError, w\<lparr>trace := trace w @ [(StoreOp LeaderboardFind, False)]\<rparr>)"
  using assms by (simp add: leaderboard_def get_leaderboard_def seq_def call_def Let_def)

lemma leaderboard_replies:
  assumes "\<not> fails orc (length (trace w))"
  shows "leaderboard orc upd w
     = update_message_reply_text orc upd
         (if leaderboard_collection w = [] then ''No users on the leaderboard yet.''
          else ''Top 10 Users:\<newline>\<newline>''
               @ concat (map2 leaderboard_line
                   [1..<Suc (length (take 10 (sort_key (\<lambda>d. - l_score d)
                                               (leaderboard_collection w))))]
                   (take 10 (sort_key (\<lambda>d. - l_score d) (leaderboard_collection w)))))
         [] (w\<lparr>trace := trace w @ [(StoreOp LeaderboardFind, True)]\<rparr>)"
proof -
  let ?top = "take 10 (sort_key (\<lambda>d. - l_score d) (leaderboard_collection w))"
  have e: "(?top = []) = (leaderboard_collection w = [])"
    using top10_facts [of "leaderboard_collection w"]
    by (metis length_0_conv min_0R zero_neq_numeral min_def)
  show ?thesis
    using e
    by (simp add: leaderboard_def seq_def get_leaderboard_run [OF assms] leaderboard_loop_closed)
qed


lemmas route_defs = route_command_def lower_def lower_char_def


section \<open>The claims\<close>

subsection \<open>C2: the membership gate\<close>

text \<open>
  Claim C2. For every user id, \<open>is_user_member\<close> returns true iff for every configured
  required channel the provider reports the user's status as one of member,
  administrator or creator (the owner); and if the provider query raises for any single
  channel, the gate returns false, whatever the other channels answer.
\<close>

theorem is_user_member_iff:
  "fst (is_user_member cfg orc uid w) =
     Inr (\<forall>channel\<in>set (required_channels cfg).
            \<exists>status. get_chat_member orc (''@'' @ channel) uid = Inr status
                     \<and> status \<in> {''member'', ''administrator'', ''creator''})
   \<and> (\<forall>channel\<in>set (required_channels cfg).
         isl (get_chat_member orc (''@'' @ channel) uid)
         \<longrightarrow> fst (is_user_member cfg orc uid w) = Inr False)"
  unfolding is_user_member_def is_user_member_loop_result member_statuses_def
  by (fastforce simp: isl_def)

theorem is_user_member_iff_witness:
  "fst (is_user_member cfg2 calm 7 world0) = Inr True
   \<and> fst (is_user_member cfg2 outsider 7 world0) = Inr False
   \<and> fst (is_user_member cfg2 beta_down 7 world0) = Inr False"
  using is_user_member_iff [of cfg2 calm 7 world0]
    is_user_member_iff [of cfg2 outsider 7 world0]
    is_user_member_iff [of cfg2 beta_down 7 world0]
  by (auto simp add: cfg2_def calm_def outsider_def beta_down_def)

subsection \<open>C4: leaderboard entries, prediction records and user rows\<close>

text \<open>
  Claim C4, as stated: in every reachable state a leaderboard entry for a user exists
  iff a prediction record for that user exists, and a user row exists before any
  prediction record or leaderboard entry is written for that id. Both parts fail.
  User 7 presses the colour button on the empty store: the record and the entry are
  written and there is no user row. And when the leaderboard update of that run fails,
  the record is there without an entry.
\<close>

theorem user_row_and_entry_counterexample:
  "reachable any_env cfg2 after_press
   \<and> prediction_users after_press = {7}
   \<and> leaderboard_users after_press = {7}
   \<and> users_collection after_press = []
   \<and> reachable any_env cfg2 after_failed_increment
   \<and> prediction_users after_failed_increment = {7}
   \<and> leaderboard_users after_failed_increment = {}"
proof -
  have r1: "reachable any_env cfg2 after_press"
    unfolding after_press_def
    by (rule reachable_step [OF reachable_init]) (simp add: any_env_def)
  have r2: "reachable any_env cfg2 after_failed_increment"
    unfolding after_failed_increment_def
    by (rule reachable_step [OF reachable_init]) (simp add: any_env_def)
  have e1: "prediction_users after_press = {7} \<and> leaderboard_users after_press = {7}
            \<and> users_collection after_press = []"
    by (simp add: after_press_def prediction_users_def leaderboard_users_def run_defs input_defs)
  have e2: "prediction_users after_failed_increment = {7}
            \<and> leaderboard_users after_failed_increment = {}"
    by (simp add: after_failed_increment_def prediction_users_def leaderboard_users_def
        run_defs input_defs)
  from r1 r2 e1 e2 show ?thesis by simp
qed

text \<open>
  Claim C4, amended: in every reachable state a leaderboard entry for a user exists only
  if a prediction record for that user exists (so a user without prediction records has
  no leaderboard entry); when no call fails on the way, the users with an entry are
  exactly the users with a record. A user row need not exist.
\<close>

theorem leaderboard_entry_needs_prediction:
  assumes "reachable A cfg w"
  shows "leaderboard_users w \<subseteq> prediction_users w
         \<and> ((\<forall>orc. A orc \<longrightarrow> no_call_fails orc) \<longrightarrow> prediction_users w = leaderboard_users w)"
  using assms
proof (induction rule: reachable.induct)
  case reachable_init
  show ?case by (simp add: world0_def leaderboard_users_def prediction_users_def)
next
  case (reachable_step w orc upd)
  then show ?case
    using dispatch_lb_sub_pred [of w cfg orc upd] dispatch_pred_sub_lb [of w orc cfg upd]
    by blast
qed

theorem leaderboard_entry_needs_prediction_witness:
  "reachable no_call_fails cfg2 after_press
   \<and> leaderboard_users after_press \<subseteq> prediction_users after_press
   \<and> prediction_users after_press = leaderboard_users after_press
   \<and> 7 \<in> leaderboard_users after_press"
proof -
  have r: "reachable no_call_fails cfg2 after_press"
    unfolding after_press_def
    by (rule reachable_step [OF reachable_init]) (simp add: no_call_fails_def calm_def)
  have m: "7 \<in> leaderboard_users after_press"
    by (simp add: after_press_def leaderboard_users_def run_defs input_defs)
  from leaderboard_entry_needs_prediction [OF r] r m show ?thesis by simp
qed

subsection \<open>C3: what a completed prediction writes\<close>

text \<open>
  Claim C3. For every completed prediction (colour or number), exactly one prediction
  record is appended, for the user who pressed the button, and that user's leaderboard
  score is increased by exactly 1 through the store's increment: the store calls of the
  run are exactly the one insert and the one \<open>update_one\<close> with \<open>$inc\<close> 1, so the
  handler never reads the leaderboard, and an entry with score 1 is created when there
  was none. This holds whatever was drawn; the scores of the other users and the user
  rows stay as they were. Both handlers do complete when no call fails. Since the store
  does each increment as a whole, the increments of several runs, applied in whatever
  order they reach the store, add up: none is lost.
\<close>

theorem completed_prediction_writes_once:
  "(handle_color_prediction orc upd w = (Inr (), w')
      \<or> handle_number_prediction orc upd w = (Inr (), w') \<longrightarrow>
     (\<exists>from_user doc.
           callback_query upd = Some from_user
         \<and> p_user_id doc = tg_id from_user
         \<and> predictions_collection w' = predictions_collection w @ [doc]
         \<and> store_calls (length (trace w)) w' =
             [(StoreOp (PredictionsInsertOne (tg_id from_user)), True),
              (StoreOp (LeaderboardUpdateOne (tg_id from_user) (tg_username from_user) 1), True)]
         \<and> leaderboard_collection w' =
             apply_increments [(tg_id from_user, tg_username from_user, 1)]
               (leaderboard_collection w)
         \<and> tg_id from_user \<in> leaderboard_users w'
         \<and> score_of (tg_id from_user) (leaderboard_collection w')
             = score_of (tg_id from_user) (leaderboard_collection w) + 1
         \<and> (\<forall>v. v \<noteq> tg_id from_user \<longrightarrow>
               score_of v (leaderboard_collection w') = score_of v (leaderboard_collection w))
         \<and> users_collection w' = users_collection w))
   \<and> (no_call_fails orc \<and> callback_query upd \<noteq> None \<longrightarrow>
         fst (handle_color_prediction orc upd w) = Inr ()
       \<and> fst (handle_number_prediction orc upd w) = Inr ())
   \<and> score_of v (apply_increments incs docs) = score_of v docs + increments_for v incs"
proof -
  have first: "\<exists>from_user doc.
           callback_query upd = Some from_user
         \<and> p_user_id doc = tg_id from_user
         \<and> predictions_collection w' = predictions_collection w @ [doc]
         \<and> store_calls (length (trace w)) w' =
             [(StoreOp (PredictionsInsertOne (tg_id from_user)), True),
              (StoreOp (LeaderboardUpdateOne (tg_id from_user) (tg_username from_user) 1), True)]
         \<and> leaderboard_collection w' =
             apply_increments [(tg_id from_user, tg_username from_user, 1)]
               (leaderboard_collection w)
         \<and> tg_id from_user \<in> leaderboard_users w'
         \<and> score_of (tg_id from_user) (leaderboard_collection w')
             = score_of (tg_id from_user) (leaderboard_collection w) + 1
         \<and> (\<forall>v. v \<noteq> tg_id from_user \<longrightarrow>
               score_of v (leaderboard_collection w') = score_of v (leaderboard_collection w))
         \<and> users_collection w' = users_collection w"
    if run: "handle_color_prediction orc upd w = (Inr (), w')
             \<or> handle_number_prediction orc upd w = (Inr (), w')"
  proof -
    from run obtain from_user doc where
      cq: "callback_query upd = Some from_user" and
      st: "store w' = (users_collection w, predictions_collection w @ [doc],
             inc_score (tg_id from_user) (tg_username from_user) 1 (leaderboard_collection w))" and
      d: "p_user_id doc = tg_id from_user"
      using handle_color_prediction_effect [of orc upd w w']
        handle_number_prediction_effect [of orc upd w w']
      by force
    from run cq have calls: "store_calls (length (trace w)) w' =
             [(StoreOp (PredictionsInsertOne (tg_id from_user)), True),
              (StoreOp (LeaderboardUpdateOne (tg_id from_user) (tg_username from_user) 1), True)]"
      using handle_color_prediction_calls [of orc upd w w' from_user]
        handle_number_prediction_calls [of orc upd w w' from_user]
      by blast
    from st have
      "users_collection w' = users_collection w"
      "predictions_collection w' = predictions_collection w @ [doc]"
      "leaderboard_collection w' =
         inc_score (tg_id from_user) (tg_username from_user) 1 (leaderboard_collection w)"
      by (simp_all add: store_def)
    with cq d calls show ?thesis
      by (auto simp: score_of_inc_score_same score_of_inc_score_other leaderboard_users_def
          l_user_id_inc_score apply_increments_def)
  qed
  have second: "fst (handle_color_prediction orc upd w) = Inr ()
       \<and> fst (handle_number_prediction orc upd w) = Inr ()"
    if "no_call_fails orc" and "callback_query upd \<noteq> None"
    using that prediction_completes [of orc upd _ w] by auto
  from first second score_of_apply_increments [of v incs docs] show ?thesis by blast
qed

theorem completed_prediction_writes_once_witness:
  "handle_color_prediction calm press_color world0 = (Inr (), after_press)
   \<and> map p_type (predictions_collection after_press) = [''color'']
   \<and> store_calls 0 after_press =
       [(StoreOp (PredictionsInsertOne 7), True),
        (StoreOp (LeaderboardUpdateOne 7 (Some ''ann'') 1), True)]
   \<and> score_of 7 (leaderboard_collection after_press) = 1
   \<and> handle_number_prediction calm press_number world0 = (Inr (), after_number)
   \<and> map p_type (predictions_collection after_number) = [''number'']
   \<and> store_calls 0 after_number =
       [(StoreOp (PredictionsInsertOne 7), True),
        (StoreOp (LeaderboardUpdateOne 7 (Some ''ann'') 1), True)]
   \<and> score_of 7 (leaderboard_collection after_number) = 1
   \<and> score_of 7 (apply_increments [(7, None, 1), (8, None, 1), (7, None, 1)] []) = 2"
proof -
  have c: "handle_color_prediction calm press_color world0 = (Inr (), after_press)"
    by (simp add: after_press_def run_defs input_defs)
  have n: "handle_number_prediction calm press_number world0 = (Inr (), after_number)"
    by (simp add: after_number_def run_defs input_defs)
  have tc: "map p_type (predictions_collection after_press) = [''color'']"
    by (simp add: after_press_def run_defs input_defs)
  have tn: "map p_type (predictions_collection after_number) = [''number'']"
    by (simp add: after_number_def run_defs input_defs)
  have nf: "no_call_fails calm" by (simp add: no_call_fails_def calm_def)
  from completed_prediction_writes_once
         [of calm press_color world0 after_press 7 "[(7, None, 1), (8, None, 1), (7, None, 1)]" "[]"]
    completed_prediction_writes_once
         [of calm press_number world0 after_number 7 "[]" "[]"]
    c n tc tn nf
  show ?thesis
    by (auto simp: press_color_def press_number_def callback_query_def user7_def world0_def
        score_of_def increments_for_def)
qed

subsection \<open>C1: the prediction buttons and the gate\<close>

text \<open>
  Claim C1 says that a prediction button pressed by a user for whom the membership gate
  fails leads to the join request and to nothing else. The two prediction handlers never
  call \<open>is_user_member\<close>, which \<open>start\<close>, \<open>how_to_bet\<close> and \<open>profile\<close> do: for user 7,
  whom the provider reports as having left every channel, the gate is false, and yet both
  handlers complete, write a prediction record, raise the score and send the result
  photo; no join request is sent.
\<close>

theorem prediction_press_ignores_gate:
  "fst (is_user_member cfg2 outsider (tg_id user7) world0) = Inr False
   \<and> fst (dispatch cfg2 outsider press_color world0) = Inr ()
   \<and> map p_user_id (predictions_collection outsider_color) = [7]
   \<and> map l_score (leaderboard_collection outsider_color) = [1]
   \<and> length (filter is_reply_photo (map fst (trace outsider_color))) = 1
   \<and> filter is_join_prompt (map fst (trace outsider_color)) = []
   \<and> fst (dispatch cfg2 outsider press_number world0) = Inr ()
   \<and> map p_user_id (predictions_collection outsider_number) = [7]
   \<and> map l_score (leaderboard_collection outsider_number) = [1]
   \<and> length (filter is_reply_photo (map fst (trace outsider_number))) = 1
   \<and> filter is_join_prompt (map fst (trace outsider_number)) = []"
proof -
  have g: "fst (is_user_member cfg2 outsider (tg_id user7) world0) = Inr False"
    unfolding is_user_member_def is_user_member_loop_result
    by (auto simp: member_statuses_def cfg2_def outsider_def calm_def)
  have c: "fst (dispatch cfg2 outsider press_color world0) = Inr ()
     \<and> map p_user_id (predictions_collection outsider_color) = [7]
     \<and> map l_score (leaderboard_collection outsider_color) = [1]
     \<and> length (filter is_reply_photo (map fst (trace outsider_color))) = 1
     \<and> filter is_join_prompt (map fst (trace outsider_color)) = []"
    by (simp add: outsider_color_def run_defs input_defs is_reply_photo_def is_join_prompt_def
        join_prompt_def)
  have n: "fst (dispatch cfg2 outsider press_number world0) = Inr ()
     \<and> map p_user_id (predictions_collection outsider_number) = [7]
     \<and> map l_score (leaderboard_collection outsider_number) = [1]
     \<and> length (filter is_reply_photo (map fst (trace outsider_number))) = 1
     \<and> filter is_join_prompt (map fst (trace outsider_number)) = []"
    by (simp add: outsider_number_def run_defs input_defs is_reply_photo_def is_join_prompt_def
        join_prompt_def)
  from g c n show ?thesis by simp
qed

subsection \<open>C5: adding a user twice\<close>

text \<open>
  Claim C5 says that a second \<open>add_user\<close> for the same id with another display name
  leaves one user row with the new name and with the balance and the join timestamp of
  the first call. \<open>add_user\<close> writes \<open>join_date\<close> (and \<open>balance\<close> and \<open>predictions\<close>)
  under \<open>$set\<close>, so the second call overwrites the join timestamp with the clock reading
  of the second call: one row, the new name, balance 0 as before, but the later date.
\<close>

theorem add_user_twice_resets_join_date:
  "map u_user_id (users_collection added_once) = [7]
   \<and> map u_first_name (users_collection added_once) = [''Ann'']
   \<and> map u_join_date (users_collection added_once) = [''2024-01-01 10:00:00'']
   \<and> map u_user_id (users_collection added_twice) = [7]
   \<and> map u_first_name (users_collection added_twice) = [''Bob'']
   \<and> map u_balance (users_collection added_twice) = map u_balance (users_collection added_once)
   \<and> map u_join_date (users_collection added_twice) = [''2024-02-02 12:00:00'']"
  by (simp add: added_twice_def added_once_def add_user_def user_fields_def later_def
      user7_renamed_def seq_def call_def modify_def Let_def input_defs)

subsection \<open>C9: a webhook body that does not parse\<close>

text \<open>
  Claim C9, as stated: for a body that fails to parse, the endpoint responds with a
  client-error status and enqueues nothing. \<open>telegram_webhook\<close> has no response but
  \<open>OK\<close>: on a body the parser rejects, the parser's exception leaves the function and
  no response is built.
\<close>

theorem webhook_reject_counterexample:
  "fst (telegram_webhook reject_all ''{'' []) = Inl MalformedBody
   \<and> \<not> client_error (fst (telegram_webhook reject_all ''{'' []))"
  by (simp add: telegram_webhook_def reject_all_def client_error_def)

text \<open>
  Claim C9, amended: for a body that fails to parse, the parser's exception leaves
  \<open>telegram_webhook\<close> (no response is built, and none with a client-error status), and
  nothing is enqueued: the update queue is the same afterwards. The only response the
  function ever builds has status 200.
\<close>

theorem webhook_reject_leaves_queue:
  "(parse body = Inl e \<longrightarrow>
      telegram_webhook parse body update_queue = (Inl e, update_queue))
   \<and> (\<forall>resp. fst (telegram_webhook parse body update_queue) = Inr resp \<longrightarrow> status resp = 200)
   \<and> \<not> client_error (fst (telegram_webhook parse body update_queue))"
  by (cases "parse body") (simp_all add: telegram_webhook_def client_error_def)

theorem webhook_reject_leaves_queue_witness:
  "telegram_webhook reject_all ''{'' [OtherUpdate] = (Inl MalformedBody, [OtherUpdate])
   \<and> length (snd (telegram_webhook reject_all ''{'' [OtherUpdate])) = length [OtherUpdate]
   \<and> fst (telegram_webhook accept_all ''{}'' []) = Inr \<lparr>status = 200, body_text = ''OK''\<rparr>"
  using webhook_reject_leaves_queue [of reject_all "''{''" MalformedBody "[OtherUpdate]"]
    webhook_reject_leaves_queue [of accept_all "''{}''" MalformedBody "[]"]
  by (simp add: reject_all_def accept_all_def telegram_webhook_def)

subsection \<open>C8: the number drawn and its size label\<close>

text \<open>
  Claim C8. For every number prediction the number drawn is an integer from 1 to 10, and
  the size label derived from it is SMALL iff the number is in 1..4 and BIG iff it is in
  5..10. The label depends on the number alone, with the fixed bound 4. A completed
  number prediction records the number with that label and shows both in the result
  photo.
\<close>

theorem number_draw_and_size_label:
  "1 \<le> random_randint orc 1 10 \<and> random_randint orc 1 10 \<le> 10
   \<and> (size_label (random_randint orc 1 10) = ''SMALL'' \<longleftrightarrow> random_randint orc 1 10 \<in> {1..4})
   \<and> (size_label (random_randint orc 1 10) = ''BIG'' \<longleftrightarrow> random_randint orc 1 10 \<in> {5..10})
   \<and> (handle_number_prediction orc upd w = (Inr (), w') \<longrightarrow>
        p_type (last (predictions_collection w')) = ''number''
      \<and> p_result (last (predictions_collection w'))
          = str_int (random_randint orc 1 10) @ '' (''
            @ size_label (random_randint orc 1 10) @ '')''
      \<and> last (trace w') =
          (ReplyPhoto QueryMessage
             (if random_randint orc 1 10 \<le> 4 then ''https://t.me/megahubbots/13''
              else ''https://t.me/megahubbots/14'')
             (number_caption (random_randint orc 1 10))
             [[CallbackButton ''Get Prediction Again'' ''number_prediction'']], True))"
proof -
  have r: "1 \<le> random_randint orc 1 10 \<and> random_randint orc 1 10 \<le> 10"
    by (simp add: random_randint_def)
  have l: "(size_label n = ''SMALL'' \<longleftrightarrow> n \<le> 4) \<and> (size_label n = ''BIG'' \<longleftrightarrow> 4 < n)" for n
    by (auto simp: size_label_def)
  have h: "p_type (last (predictions_collection w')) = ''number''
      \<and> p_result (last (predictions_collection w'))
          = str_int (random_randint orc 1 10) @ '' (''
            @ size_label (random_randint orc 1 10) @ '')''
      \<and> last (trace w') =
          (ReplyPhoto QueryMessage
             (if random_randint orc 1 10 \<le> 4 then ''https://t.me/megahubbots/13''
              else ''https://t.me/megahubbots/14'')
             (number_caption (random_randint orc 1 10))
             [[CallbackButton ''Get Prediction Again'' ''number_prediction'']], True)"
    if run: "handle_number_prediction orc upd w = (Inr (), w')"
  proof -
    from handle_number_prediction_effect [OF run]
    have "predictions_collection w' = predictions_collection w @
           [\<lparr>p_user_id = tg_id (the (callback_query upd)), p_type = ''number'',
             p_result = str_int (random_randint orc 1 10) @ '' (''
                        @ size_label (random_randint orc 1 10) @ '')'',
             p_timestamp = now orc\<rparr>]"
      by (auto simp: store_def)
    with handle_number_prediction_photo [OF run] l [of "random_randint orc 1 10"]
    show ?thesis by simp
  qed
  from r l [of "random_randint orc 1 10"] h show ?thesis by auto
qed

theorem number_draw_and_size_label_witness:
  "handle_number_prediction (draw 3) press_number world0 = (Inr (), after_small)
   \<and> random_randint (draw 3) 1 10 = 4
   \<and> p_result (last (predictions_collection after_small)) = ''4 (SMALL)''
   \<and> handle_number_prediction (draw 4) press_number world0 = (Inr (), after_big)
   \<and> random_randint (draw 4) 1 10 = 5
   \<and> p_result (last (predictions_collection after_big)) = ''5 (BIG)''"
proof -
  have s: "handle_number_prediction (draw 3) press_number world0 = (Inr (), after_small)"
    by (simp add: after_small_def draw_def run_defs input_defs)
  have b: "handle_number_prediction (draw 4) press_number world0 = (Inr (), after_big)"
    by (simp add: after_big_def draw_def run_defs input_defs)
  have d: "random_randint (draw 3) 1 10 = 4" "random_randint (draw 4) 1 10 = 5"
    by (simp_all add: random_randint_def draw_def calm_def)
  from number_draw_and_size_label [of "draw 3" press_number world0 after_small]
    number_draw_and_size_label [of "draw 4" press_number world0 after_big] s b d
  show ?thesis by (simp add: size_label_def str_int_def)
qed

subsection \<open>C6: a store write that fails during a prediction\<close>

text \<open>
  Claim C6, as stated: when the insert of the record or the leaderboard increment fails,
  the handler does not crash, the failure is logged and the user still receives the
  result photo. The handlers have no \<open>try\<close> around the two writes: with the insert
  failing (the call at position 7) or the increment failing (position 8), the exception
  leaves the handler, nothing is logged by it and no photo is sent.
\<close>

theorem store_failure_counterexample:
  "fst (dispatch cfg2 (failing_at 7) press_color world0) = Inl PersistenceError
   \<and> last (trace after_failed_insert) = (StoreOp (PredictionsInsertOne 7), False)
   \<and> filter is_reply_photo (map fst (trace after_failed_insert)) = []
   \<and> logged after_failed_insert = []
   \<and> fst (dispatch cfg2 (failing_at 8) press_color world0) = Inl PersistenceError
   \<and> last (trace after_failed_increment) = (StoreOp (LeaderboardUpdateOne 7 (Some ''ann'') 1), False)
   \<and> filter is_reply_photo (map fst (trace after_failed_increment)) = []
   \<and> logged after_failed_increment = []"
proof -
  have a: "fst (dispatch cfg2 (failing_at 7) press_color world0) = Inl PersistenceError
     \<and> last (trace after_failed_insert) = (StoreOp (PredictionsInsertOne 7), False)
     \<and> filter is_reply_photo (map fst (trace after_failed_insert)) = []
     \<and> logged after_failed_insert = []"
    by (simp add: after_failed_insert_def run_defs input_defs is_reply_photo_def)
  have b: "fst (dispatch cfg2 (failing_at 8) press_color world0) = Inl PersistenceError
     \<and> last (trace after_failed_increment) = (StoreOp (LeaderboardUpdateOne 7 (Some ''ann'') 1), False)
     \<and> filter is_reply_photo (map fst (trace after_failed_increment)) = []
     \<and> logged after_failed_increment = []"
    by (simp add: after_failed_increment_def run_defs input_defs is_reply_photo_def)
  from a b show ?thesis by simp
qed

text \<open>
  Claim C6, amended: when the insert of the record or the leaderboard increment of a
  prediction run (colour or number) fails, the exception of the store leaves the handler
  at that call: the failed write is the last call of the run, so the placeholder is not
  deleted and no result photo is sent.
\<close>

theorem failed_store_write_ends_prediction:
  assumes "handle_color_prediction orc upd w = (r, w')
           \<or> handle_number_prediction orc upd w = (r, w')"
    and "(StoreOp op, False) \<in> set (run_trace (length (trace w)) w')"
  shows "r = Inl PersistenceError
         \<and> last (trace w') = (StoreOp op, False)
         \<and> filter (\<lambda>x. is_reply_photo (fst x) \<or> is_delete (fst x))
              (run_trace (length (trace w)) w') = []"
proof -
  let ?n = "length (trace w)"
  from assms(1) have post:
    "case r of Inl e \<Rightarrow> stopped ?n e w' \<or> stores_ok ?n w' | Inr x \<Rightarrow> stores_ok ?n w'"
    using tripleD [OF handle_color_prediction_phases quiet_start, of orc upd w r w']
      tripleD [OF handle_number_prediction_phases quiet_start, of orc upd w r w']
    by blast
  from assms(2) have "\<not> stores_ok ?n w'"
    by (fastforce simp: stores_ok_def list_all_iff is_store_op_def)
  with post obtain e where r: "r = Inl e" and s: "stopped ?n e w'"
    by (cases r) auto
  from stopped_failed_store [OF s assms(2)] r show ?thesis by simp
qed


theorem failed_store_write_ends_prediction_witness:
  "handle_color_prediction (failing_at 7) press_color world0
     = (Inl PersistenceError, after_failed_insert)
   \<and> (StoreOp (PredictionsInsertOne 7), False)
       \<in> set (run_trace (length (trace world0)) after_failed_insert)
   \<and> last (trace after_failed_insert) = (StoreOp (PredictionsInsertOne 7), False)"
proof -
  have run: "handle_color_prediction (failing_at 7) press_color world0
     = (Inl PersistenceError, after_failed_insert)"
    by (simp add: after_failed_insert_def run_defs input_defs)
  have mem: "(StoreOp (PredictionsInsertOne 7), False)
       \<in> set (run_trace (length (trace world0)) after_failed_insert)"
    by (simp add: after_failed_insert_def run_trace_def run_defs input_defs)
  from failed_store_write_ends_prediction
         [of "failing_at 7" press_color world0 "Inl PersistenceError" after_failed_insert
             "PredictionsInsertOne 7"] run mem
  show ?thesis by simp
qed

subsection \<open>C7: the broadcast\<close>




subsection \<open>C10: the leaderboard\<close>

text \<open>
  Claim C10, as stated: the leaderboard query returns at most 10 entries in
  non-increasing order of score, and the leaderboard command shows exactly those,
  numbered from 1, or the fixed no-users message when the leaderboard is empty.
  \<open>CommandHandler\<close> also routes a \<open>/leaderboard\<close> that arrives as the edit of a
  message, and then \<open>update.message\<close> is \<open>None\<close>: the query is made and the reply
  raises, so nothing is shown. And when the query fails, its exception leaves the
  command and nothing is shown either.
\<close>

theorem leaderboard_edited_counterexample:
  "fst (dispatch cfg2 calm leaderboard_edited three_scores) = Inl AttributeError
   \<and> trace (snd (dispatch cfg2 calm leaderboard_edited three_scores))
       = [(StoreOp LeaderboardFind, True)]
   \<and> dispatch cfg2 (failing_at 0) ask_leaderboard three_scores
       = (Inl PersistenceError, three_scores\<lparr>trace := [(StoreOp LeaderboardFind, False)]\<rparr>)"
  by (simp add: route_defs leaderboard_def get_leaderboard_def update_message_reply_text_def
      leaderboard_edited_def ask_leaderboard_def three_scores_def run_defs input_defs)

text \<open>
  Claim C10, amended. The leaderboard query returns at most 10 entries (all of them when
  there are fewer), in non-increasing order of score. When the query fails, its
  exception leaves the leaderboard command. When it succeeds, the command, on a new
  message, replies with exactly those entries, numbered from 1 in that order, after the
  header, or with the fixed no-users message when the leaderboard is empty; on an edited
  message the reply raises \<open>AttributeError\<close> and nothing is shown.
\<close>

theorem leaderboard_top10:
  "(get_leaderboard orc w = (Inr data, w') \<longrightarrow>
      length data \<le> 10
    \<and> length data = min 10 (length (leaderboard_collection w))
    \<and> sorted_wrt (\<lambda>a b. l_score b \<le> l_score a) data
    \<and> set data \<subseteq> set (leaderboard_collection w))
   \<and> (fails orc (length (trace w)) \<longrightarrow>
        leaderboard orc upd w
          = (Inl PersistenceError, w\<lparr>trace := trace w @ [(StoreOp LeaderboardFind, False)]\<rparr>))
   \<and> (\<not> fails orc (length (trace w)) \<longrightarrow>
        get_leaderboard orc w
          = (Inr (take 10 (sort_key (\<lambda>d. - l_score d) (leaderboard_collection w))),
             w\<lparr>trace := trace w @ [(StoreOp LeaderboardFind, True)]\<rparr>)
      \<and> (has_message upd \<longrightarrow>
           leaderboard orc upd w
             = (if fails orc (Suc (length (trace w))) then Inl TransportError else Inr (),
                w\<lparr>trace := trace w
                  @ [(StoreOp LeaderboardFind, True),
                     (ReplyText UpdateMessage
                        (if leaderboard_collection w = [] then ''No users on the leaderboard yet.''
                         else ''Top 10 Users:\<newline>\<newline>''
                              @ concat (map2 leaderboard_line
                                  [1..<Suc (length (take 10 (sort_key (\<lambda>d. - l_score d)
                                                              (leaderboard_collection w))))]
                                  (take 10 (sort_key (\<lambda>d. - l_score d)
                                              (leaderboard_collection w)))))
                        [],
                      \<not> fails orc (Suc (length (trace w))))]\<rparr>))
      \<and> (\<not> has_message upd \<longrightarrow>
           leaderboard orc upd w
             = (Inl AttributeError,
                w\<lparr>trace := trace w @ [(StoreOp LeaderboardFind, True)]\<rparr>)))"
proof -
  have a: "length data \<le> 10
    \<and> length data = min 10 (length (leaderboard_collection w))
    \<and> sorted_wrt (\<lambda>a b. l_score b \<le> l_score a) data
    \<and> set data \<subseteq> set (leaderboard_collection w)"
    if "get_leaderboard orc w = (Inr data, w')"
    using get_leaderboard_result [OF that] top10_sorted [of "leaderboard_collection w"]
      top10_facts [of "leaderboard_collection w"]
    by simp
  have b: "leaderboard orc upd w
          = (Inl PersistenceError, w\<lparr>trace := trace w @ [(StoreOp LeaderboardFind, False)]\<rparr>)"
    if "fails orc (length (trace w))"
    using that by (rule leaderboard_read_fails)
  have c: "get_leaderboard orc w
          = (Inr (take 10 (sort_key (\<lambda>d. - l_score d) (leaderboard_collection w))),
             w\<lparr>trace := trace w @ [(StoreOp LeaderboardFind, True)]\<rparr>)"
    if "\<not> fails orc (length (trace w))"
    using that by (rule get_leaderboard_run)
  have d: "leaderboard orc upd w
             = (if fails orc (Suc (length (trace w))) then Inl TransportError else Inr (),
                w\<lparr>trace := trace w
                  @ [(StoreOp LeaderboardFind, True),
                     (ReplyText UpdateMessage
                        (if leaderboard_collection w = [] then ''No users on the leaderboard yet.''
                         else ''Top 10 Users:\<newline>\<newline>''
                              @ concat (map2 leaderboard_line
                                  [1..<Suc (length (take 10 (sort_key (\<lambda>d. - l_score d)
                                                              (leaderboard_collection w))))]
                                  (take 10 (sort_key (\<lambda>d. - l_score d)
                                              (leaderboard_collection w)))))
                        [],
                      \<not> fails orc (Suc (length (trace w))))]\<rparr>)"
    if "\<not> fails orc (length (trace w))" and "has_message upd"
    using that by (simp add: leaderboard_replies reply_outcome)
  have e: "leaderboard orc upd w
             = (Inl AttributeError,
                w\<lparr>trace := trace w @ [(StoreOp LeaderboardFind, True)]\<rparr>)"
    if "\<not> fails orc (length (trace w))" and "\<not> has_message upd"
    using that by (simp add: leaderboard_replies reply_outcome)
  from a b c d e show ?thesis by blast
qed

theorem leaderboard_top10_witness:
  "fst (get_leaderboard calm three_scores) = Inr
       [\<lparr>l_user_id = 12, l_username = None, l_score = 5\<rparr>,
        \<lparr>l_user_id = 13, l_username = Some ''cy'', l_score = 3\<rparr>,
        \<lparr>l_user_id = 11, l_username = Some ''ann'', l_score = 1\<rparr>]
   \<and> trace (snd (leaderboard calm ask_leaderboard three_scores))
       = [(StoreOp LeaderboardFind, True),
          (ReplyText UpdateMessage
             ''Top 10 Users:\<newline>\<newline>1. None: 5 points\<newline>2. cy: 3 points\<newline>3. ann: 1 points\<newline>'' [], True)]
   \<and> trace (snd (leaderboard calm ask_leaderboard world0))
       = [(StoreOp LeaderboardFind, True),
          (ReplyText UpdateMessage ''No users on the leaderboard yet.'' [], True)]
   \<and> leaderboard calm leaderboard_edited three_scores
       = (Inl AttributeError, three_scores\<lparr>trace := [(StoreOp LeaderboardFind, True)]\<rparr>)
   \<and> leaderboard (failing_at 0) ask_leaderboard three_scores
       = (Inl PersistenceError, three_scores\<lparr>trace := [(StoreOp LeaderboardFind, False)]\<rparr>)"
proof -
  have g: "get_leaderboard calm three_scores = (Inr
       [\<lparr>l_user_id = 12, l_username = None, l_score = 5\<rparr>,
        \<lparr>l_user_id = 13, l_username = Some ''cy'', l_score = 3\<rparr>,
        \<lparr>l_user_id = 11, l_username = Some ''ann'', l_score = 1\<rparr>],
       three_scores\<lparr>trace := [(StoreOp LeaderboardFind, True)]\<rparr>)"
    by (simp add: get_leaderboard_def three_scores_def run_defs input_defs)
  from leaderboard_top10
         [where orc = calm and w = three_scores and upd = ask_leaderboard
            and w' = "three_scores\<lparr>trace := [(StoreOp LeaderboardFind, True)]\<rparr>"
            and data = "[\<lparr>l_user_id = 12, l_username = None, l_score = 5\<rparr>,
        \<lparr>l_user_id = 13, l_username = Some ''cy'', l_score = 3\<rparr>,
        \<lparr>l_user_id = 11, l_username = Some ''ann'', l_score = 1\<rparr>]"]
    leaderboard_top10 [where orc = calm and w = world0 and upd = ask_leaderboard]
    leaderboard_top10 [where orc = calm and w = three_scores and upd = leaderboard_edited]
    leaderboard_top10 [where orc = "failing_at 0" and w = three_scores and upd = ask_leaderboard]
    g
  show ?thesis
    by (simp add: ask_leaderboard_def leaderboard_edited_def has_message_def three_scores_def
        leaderboard_line_def str_opt_def str_int_def input_defs)
qed

end
